theory Spec2Isabelle
  imports Complex_Main "HOL-Library.Word"
begin

unbundle bit_operations_syntax

section \<open>Numbers and array helpers\<close>

text \<open>
  A candle field is a finite double, given as the real number it denotes. The indicators
  and the scores are computed on exact reals: the rounding errors of their sums and
  quotients, overflow and the sign of zero are outside the model. The target calculation
  at the end of \<open>generateSignal\<close>, whose results are returned digit by digit, rounds
  every operation to the nearest double (function \<open>rd\<close> below), and so does every
  conversion of a printed decimal back to a number.
  The two values that finite inputs can still produce through an unguarded division by
  zero (an infinity, or NaN for 0/0) are kept explicit in the type \<open>jsnum\<close> below,
  which is used exactly where the source divides by a value that may be zero.
  A \<open>null\<close> of the source is \<open>None\<close>.
\<close>

text \<open>\<open>xs.reduce((s, v) => s + v, 0)\<close>\<close>

definition reduce_sum :: "real list \<Rightarrow> real" where
  "reduce_sum xs = foldl (\<lambda>s v. s + v) 0 xs"

text \<open>\<open>xs.slice(-n)\<close>: the last \<open>n\<close> elements, the whole array when it is shorter;
  \<open>slice(-0)\<close> is \<open>slice(0)\<close>, the whole array.\<close>

definition slice_last :: "nat \<Rightarrow> 'a list \<Rightarrow> 'a list" where
  "slice_last n xs = (if n = 0 then xs else drop (length xs - n) xs)"

section \<open>Technical indicators\<close>

definition sma :: "real list \<Rightarrow> nat \<Rightarrow> real option" where
  "sma prices period =
     (if length prices < period then None
      else Some (reduce_sum (slice_last period prices) / real period))"

text \<open>The loop \<open>for (i = period; i < prices.length; i++) e = prices[i] * k + e * (1 - k)\<close>,
  run over the elements from index \<open>period\<close> on.\<close>

fun ema_loop :: "real \<Rightarrow> real \<Rightarrow> real list \<Rightarrow> real" where
  "ema_loop k e [] = e"
| "ema_loop k e (p # ps) = ema_loop k (p * k + e * (1 - k)) ps"

definition ema :: "real list \<Rightarrow> nat \<Rightarrow> real option" where
  "ema prices period =
     (if length prices < period then None
      else (let k = 2 / (real period + 1);
                e = reduce_sum (take period prices) / real period
            in Some (ema_loop k e (drop period prices))))"

text \<open>The differences \<open>prices[i] - prices[i - 1]\<close> of neighbours, oldest first.\<close>

fun deltas :: "real list \<Rightarrow> real list" where
  "deltas (a # b # xs) = (b - a) # deltas (b # xs)"
| "deltas _ = []"

text \<open>The deltas the loop of \<open>rsi\<close> visits: \<open>i\<close> from \<open>length - period\<close> to
  \<open>length - 1\<close>, which reads the last \<open>period + 1\<close> prices.\<close>

definition rsi_window :: "real list \<Rightarrow> nat \<Rightarrow> real list" where
  "rsi_window prices period = deltas (drop (length prices - (period + 1)) prices)"

fun rsi_loop :: "real \<times> real \<Rightarrow> real list \<Rightarrow> real \<times> real" where
  "rsi_loop (avgGain, avgLoss) [] = (avgGain, avgLoss)"
| "rsi_loop (avgGain, avgLoss) (d # ds) =
     (if d > 0 then rsi_loop (avgGain + d, avgLoss) ds
      else rsi_loop (avgGain, avgLoss - d) ds)"

text \<open>\<open>period\<close> is a positive count (14 at the only call): at \<open>period = 0\<close> the source
  divides 0 by 0, which a real does not represent.\<close>

definition rsi :: "real list \<Rightarrow> nat \<Rightarrow> real option" where
  "rsi prices period =
     (if length prices < period + 1 then None
      else (case rsi_loop (0, 0) (rsi_window prices period) of
              (g, l) \<Rightarrow>
                (let avgGain = g / real period; avgLoss = l / real period
                 in if avgLoss = 0 then Some 100
                    else Some (100 - 100 / (1 + avgGain / avgLoss)))))"

record macd_val =
  macd_line :: "real option"
  macd_signal :: "real option"
  macd_histogram :: "real option"

definition macd_null :: macd_val where
  "macd_null = \<lparr>macd_line = None, macd_signal = None, macd_histogram = None\<rparr>"

text \<open>The second loop of \<open>macd\<close>: both averages step over the prices from index 26 on,
  and each step pushes \<open>e12 - e26\<close>.\<close>

fun macd_history :: "real \<Rightarrow> real \<Rightarrow> real \<Rightarrow> real \<Rightarrow> real list \<Rightarrow> real list" where
  "macd_history k12 k26 e12 e26 [] = []"
| "macd_history k12 k26 e12 e26 (p # ps) =
     (let e12' = p * k12 + e12 * (1 - k12);
          e26' = p * k26 + e26 * (1 - k26)
      in (e12' - e26') # macd_history k12 k26 e12' e26' ps)"

definition macd :: "real list \<Rightarrow> macd_val" where
  "macd prices =
     (if length prices < 26 then macd_null
      else (case (ema prices 12, ema prices 26) of
              (Some ema12, Some ema26) \<Rightarrow>
                (let line = ema12 - ema26;
                     k12 = 2 / 13; k26 = 2 / 27;
                     e12 = reduce_sum (take 12 prices) / 12;
                     e26 = reduce_sum (take 26 prices) / 26;
                     e12 = ema_loop k12 e12 (take 14 (drop 12 prices));
                     macdHistory = macd_history k12 k26 e12 e26 (drop 26 prices);
                     signalLine =
                       (if length macdHistory \<ge> 9
                        then Some (ema_loop (2 / 10) (reduce_sum (take 9 macdHistory) / 9)
                                     (drop 9 macdHistory))
                        else None)
                 in \<lparr>macd_line = Some line, macd_signal = signalLine,
                     macd_histogram =
                       (case signalLine of Some s \<Rightarrow> Some (line - s) | None \<Rightarrow> None)\<rparr>)
            | _ \<Rightarrow> macd_null))"

record bb_val =
  bb_upper :: "real option"
  bb_middle :: "real option"
  bb_lower :: "real option"

text \<open>\<open>bollingerBands(prices, period = 20, stdDev = 2)\<close>; the variance sums
  \<open>(v - mid) ** 2\<close> over \<open>prices.slice(-period)\<close>.\<close>

definition bollingerBands :: "real list \<Rightarrow> nat \<Rightarrow> real \<Rightarrow> bb_val" where
  "bollingerBands prices period stdDevMult =
     (if length prices < period
      then \<lparr>bb_upper = None, bb_middle = None, bb_lower = None\<rparr>
      else (case sma prices period of
              None \<Rightarrow> \<lparr>bb_upper = None, bb_middle = None, bb_lower = None\<rparr>
            | Some mid \<Rightarrow>
                (let slice = slice_last period prices;
                     variance = foldl (\<lambda>s v. s + (v - mid) ^ 2) 0 slice / real period;
                     sd = sqrt variance
                 in \<lparr>bb_upper = Some (mid + stdDevMult * sd), bb_middle = Some mid,
                     bb_lower = Some (mid - stdDevMult * sd)\<rparr>)))"

section \<open>Signal scoring helpers\<close>

definition avg :: "real list \<Rightarrow> real option" where
  "avg values = (if values = [] then None else Some (reduce_sum values / real (length values)))"

definition stdDev :: "real list \<Rightarrow> real option" where
  "stdDev values =
     (if values = [] then None
      else (case avg values of
              None \<Rightarrow> None
            | Some mean \<Rightarrow>
                (let variance = foldl (\<lambda>s v. s + (v - mean) ^ 2) 0 values / real (length values)
                 in Some (sqrt variance))))"

text \<open>\<open>clamp(value, min, max) = Math.max(min, Math.min(max, value))\<close> on finite numbers.\<close>

definition clamp :: "real \<Rightarrow> real \<Rightarrow> real \<Rightarrow> real" where
  "clamp v lo hi = max lo (min hi v)"

text \<open>\<open>base\<close> is falsy exactly when it is zero; the index is in range after the length
  check.\<close>

definition momentum :: "real list \<Rightarrow> nat \<Rightarrow> real option" where
  "momentum prices period =
     (if length prices \<le> period then None
      else (let base = prices ! (length prices - 1 - period)
            in if base = 0 then None
               else Some ((prices ! (length prices - 1) - base) / base)))"

text \<open>The field \<open>open\<close> is spelled \<open>open_price\<close>: \<open>open\<close> is reserved.\<close>

record candle =
  timestamp :: int
  open_price :: real
  high :: real
  low :: real
  close :: real
  volume :: real

text \<open>The true ranges of the loop of \<open>atr\<close>: each candle with the close before it.\<close>

fun true_ranges :: "candle list \<Rightarrow> real list" where
  "true_ranges (p # c # cs) =
     max (max (high c - low c) \<bar>high c - close p\<bar>) \<bar>low c - close p\<bar> # true_ranges (c # cs)"
| "true_ranges _ = []"

definition atr :: "candle list \<Rightarrow> nat \<Rightarrow> real option" where
  "atr ohlcv period =
     (if length ohlcv < period + 1 then None
      else avg (true_ranges (drop (length ohlcv - (period + 1)) ohlcv)))"

text \<open>\<open>closes.slice(1).map((price, i) => closes[i] ? (price - closes[i]) / closes[i] : 0)\<close>\<close>

definition returns_of :: "real list \<Rightarrow> real list" where
  "returns_of closes =
     map (\<lambda>(prev, price). if prev \<noteq> 0 then (price - prev) / prev else 0) (zip closes (tl closes))"

record indicator_set =
  ind_currentPrice :: "real option"
  ind_rsi :: "real option"
  ind_macd :: macd_val
  ind_bollingerBands :: bb_val
  ind_ema20 :: "real option"
  ind_ema50 :: "real option"
  ind_sma200 :: "real option"
  ind_atr14 :: "real option"
  ind_momentum3 :: "real option"
  ind_momentum10 :: "real option"
  ind_volatility20 :: "real option"
  ind_latestVolume :: real
  ind_avgVolume :: real
  ind_volumeRatio :: "real option"

text \<open>\<open>currentPrice\<close> is \<open>closes[closes.length - 1]\<close>, which is \<open>undefined\<close> (here
  \<open>None\<close>) on an empty array.\<close>

definition analyzeIndicators :: "candle list \<Rightarrow> indicator_set" where
  "analyzeIndicators ohlcv =
     (let closes = map close ohlcv;
          returns = returns_of closes;
          recentVols = map volume (slice_last 20 ohlcv);
          latestVolume = (if ohlcv = [] then 0 else volume (last ohlcv));
          avgVolume = (case avg recentVols of None \<Rightarrow> 0 | Some a \<Rightarrow> a)
      in \<lparr>ind_currentPrice = (if closes = [] then None else Some (last closes)),
          ind_rsi = rsi closes 14,
          ind_macd = macd closes,
          ind_bollingerBands = bollingerBands closes 20 2,
          ind_ema20 = ema closes 20,
          ind_ema50 = ema closes 50,
          ind_sma200 = (if length closes \<ge> 200 then sma closes 200 else None),
          ind_atr14 = atr ohlcv 14,
          ind_momentum3 = momentum closes 3,
          ind_momentum10 = momentum closes 10,
          ind_volatility20 = stdDev (slice_last 20 returns),
          ind_latestVolume = latestVolume,
          ind_avgVolume = avgVolume,
          ind_volumeRatio = (if avgVolume > 0 then Some (latestVolume / avgVolume) else None)\<rparr>)"

section \<open>Numbers that may be infinite or NaN\<close>

text \<open>
  The source divides by the current price, by the middle Bollinger band and by
  \<open>|price - sl|\<close> without a guard. On finite inputs such a quotient is finite, an
  infinity (non-zero over zero) or NaN (zero over zero); the operations below follow
  IEEE-754 on these values, with exact arithmetic on the finite ones.
\<close>

datatype jsnum = Fin real | PosInf | NegInf | NaN

definition inf_of_sign :: "real \<Rightarrow> jsnum" where
  "inf_of_sign a = (if a > 0 then PosInf else if a < 0 then NegInf else NaN)"

fun js_neg :: "jsnum \<Rightarrow> jsnum" where
  "js_neg (Fin a) = Fin (- a)"
| "js_neg PosInf = NegInf"
| "js_neg NegInf = PosInf"
| "js_neg NaN = NaN"

fun js_abs :: "jsnum \<Rightarrow> jsnum" where
  "js_abs (Fin a) = Fin \<bar>a\<bar>"
| "js_abs PosInf = PosInf"
| "js_abs NegInf = PosInf"
| "js_abs NaN = NaN"

fun js_add :: "jsnum \<Rightarrow> jsnum \<Rightarrow> jsnum" where
  "js_add NaN _ = NaN"
| "js_add _ NaN = NaN"
| "js_add (Fin a) (Fin b) = Fin (a + b)"
| "js_add PosInf NegInf = NaN"
| "js_add NegInf PosInf = NaN"
| "js_add PosInf _ = PosInf"
| "js_add _ PosInf = PosInf"
| "js_add NegInf _ = NegInf"
| "js_add _ NegInf = NegInf"

definition js_sub :: "jsnum \<Rightarrow> jsnum \<Rightarrow> jsnum" where
  "js_sub a b = js_add a (js_neg b)"

fun js_mul :: "jsnum \<Rightarrow> jsnum \<Rightarrow> jsnum" where
  "js_mul NaN _ = NaN"
| "js_mul _ NaN = NaN"
| "js_mul (Fin a) (Fin b) = Fin (a * b)"
| "js_mul (Fin a) PosInf = inf_of_sign a"
| "js_mul (Fin a) NegInf = inf_of_sign (- a)"
| "js_mul PosInf (Fin b) = inf_of_sign b"
| "js_mul NegInf (Fin b) = inf_of_sign (- b)"
| "js_mul PosInf PosInf = PosInf"
| "js_mul NegInf NegInf = PosInf"
| "js_mul PosInf NegInf = NegInf"
| "js_mul NegInf PosInf = NegInf"

text \<open>A zero divisor stands for \<open>+0\<close>.\<close>

fun js_div :: "jsnum \<Rightarrow> jsnum \<Rightarrow> jsnum" where
  "js_div NaN _ = NaN"
| "js_div _ NaN = NaN"
| "js_div (Fin a) (Fin b) = (if b = 0 then inf_of_sign a else Fin (a / b))"
| "js_div (Fin a) _ = Fin 0"
| "js_div PosInf (Fin b) = (if b < 0 then NegInf else PosInf)"
| "js_div NegInf (Fin b) = (if b < 0 then PosInf else NegInf)"
| "js_div _ _ = NaN"

text \<open>The comparisons \<open><\<close>, \<open>>\<close>, \<open>>=\<close>: false when an operand is NaN.\<close>

fun js_lt :: "jsnum \<Rightarrow> jsnum \<Rightarrow> bool" where
  "js_lt NaN _ = False"
| "js_lt _ NaN = False"
| "js_lt (Fin a) (Fin b) = (a < b)"
| "js_lt NegInf NegInf = False"
| "js_lt NegInf _ = True"
| "js_lt PosInf _ = False"
| "js_lt (Fin a) PosInf = True"
| "js_lt (Fin a) NegInf = False"

definition js_gt :: "jsnum \<Rightarrow> jsnum \<Rightarrow> bool" where
  "js_gt a b = js_lt b a"

definition js_ge :: "jsnum \<Rightarrow> jsnum \<Rightarrow> bool" where
  "js_ge a b = (a \<noteq> NaN \<and> b \<noteq> NaN \<and> \<not> js_lt a b)"

text \<open>\<open>Math.min\<close> and \<open>Math.max\<close>: NaN when an argument is NaN.\<close>

definition js_min :: "jsnum \<Rightarrow> jsnum \<Rightarrow> jsnum" where
  "js_min a b = (if a = NaN \<or> b = NaN then NaN else if js_lt b a then b else a)"

definition js_max :: "jsnum \<Rightarrow> jsnum \<Rightarrow> jsnum" where
  "js_max a b = (if a = NaN \<or> b = NaN then NaN else if js_lt a b then b else a)"

text \<open>\<open>clamp\<close> at a value that may be infinite or NaN.\<close>

definition clamp_js :: "jsnum \<Rightarrow> jsnum \<Rightarrow> jsnum \<Rightarrow> jsnum" where
  "clamp_js v lo hi = js_max lo (js_min hi v)"

text \<open>\<open>x || 0\<close>: NaN and zero are falsy.\<close>

definition js_or_zero :: "jsnum \<Rightarrow> jsnum" where
  "js_or_zero x = (if x = NaN \<or> x = Fin 0 then Fin 0 else x)"

subsection \<open>Rounding to doubles\<close>

text \<open>
  \<open>rd x\<close> is the double nearest to the real \<open>x\<close>: with \<open>2^e \<le> |x| < 2^(e+1)\<close> the
  multiple of \<open>2^(e-52)\<close> nearest to \<open>x\<close>, the one with the even multiplier at a
  tie. The exponent is not bounded: overflow and subnormal numbers are outside the model.
  A decimal literal of the source denotes the double nearest to it, \<open>rd 0.015\<close> for
  \<open>0.015\<close>.
\<close>

definition round_even :: "real \<Rightarrow> int" where
  "round_even y =
     (let f = \<lfloor>y\<rfloor>; r = y - real_of_int f
      in if r < 1 / 2 then f else if r > 1 / 2 then f + 1 else if even f then f else f + 1)"

definition rd :: "real \<Rightarrow> real" where
  "rd x =
     (if x = 0 then 0
      else (let e = \<lfloor>log 2 \<bar>x\<bar>\<rfloor>; u = 2 powr (real_of_int e - 52)
            in u * real_of_int (round_even (x / u))))"

fun js_rd :: "jsnum \<Rightarrow> jsnum" where
  "js_rd (Fin x) = Fin (rd x)"
| "js_rd x = x"

text \<open>The four operations of the source on doubles: the exact result, rounded.\<close>

definition d_add :: "jsnum \<Rightarrow> jsnum \<Rightarrow> jsnum" where
  "d_add a b = js_rd (js_add a b)"

definition d_sub :: "jsnum \<Rightarrow> jsnum \<Rightarrow> jsnum" where
  "d_sub a b = js_rd (js_sub a b)"

definition d_mul :: "jsnum \<Rightarrow> jsnum \<Rightarrow> jsnum" where
  "d_mul a b = js_rd (js_mul a b)"

definition d_div :: "jsnum \<Rightarrow> jsnum \<Rightarrow> jsnum" where
  "d_div a b = js_rd (js_div a b)"

text \<open>
  \<open>x.toFixed(d)\<close> prints the decimal with \<open>d\<close> digits nearest to the value of \<open>x\<close>,
  the one larger in magnitude at a tie; from \<open>10^21\<close> on it prints the number itself.
  \<open>toFixed_num\<close> is the number that the printed text denotes.
\<close>

definition toFixed_num :: "real \<Rightarrow> nat \<Rightarrow> real" where
  "toFixed_num x d =
     (if \<bar>x\<bar> \<ge> 10 ^ 21 then x
      else sgn x * real_of_int \<lfloor>\<bar>x\<bar> * 10 ^ d + 1 / 2\<rfloor> / 10 ^ d)"

text \<open>\<open>+x.toFixed(d)\<close>: the printed decimal converted back, to the double nearest to it.\<close>

definition toFixed :: "real \<Rightarrow> nat \<Rightarrow> real" where
  "toFixed x d = rd (toFixed_num x d)"

fun js_toFixed :: "jsnum \<Rightarrow> nat \<Rightarrow> jsnum" where
  "js_toFixed (Fin x) d = Fin (toFixed x d)"
| "js_toFixed x d = x"

text \<open>\<open>null\<close> as an operand of a comparison converts to 0.\<close>

definition to_number :: "real option \<Rightarrow> real" where
  "to_number x = (case x of None \<Rightarrow> 0 | Some v \<Rightarrow> v)"

section \<open>Property lookup on object literals\<close>

text \<open>
  \<open>obj[key]\<close> on an object literal finds the literal's own properties and, for the
  property names of \<open>Object.prototype\<close>, an inherited function or object, which is
  truthy and not a number.
\<close>

datatype 'a js_prop = Own 'a | Inherited | Absent

definition object_prototype_keys :: "string list" where
  "object_prototype_keys =
     [''constructor'', ''__defineGetter__'', ''__defineSetter__'', ''hasOwnProperty'',
      ''__lookupGetter__'', ''__lookupSetter__'', ''isPrototypeOf'',
      ''propertyIsEnumerable'', ''toString'', ''valueOf'', ''__proto__'',
      ''toLocaleString'']"

definition js_get :: "(string \<times> 'a) list \<Rightarrow> string \<Rightarrow> 'a js_prop" where
  "js_get obj key =
     (case map_of obj key of
        Some v \<Rightarrow> Own v
      | None \<Rightarrow> if key \<in> set object_prototype_keys then Inherited else Absent)"

section \<open>The scoring pass of generateSignal\<close>

datatype trade_signal = BUY | SELL | HOLD

datatype regime = Uptrend | Downtrend | Range

text \<open>
  The reason strings, one constructor for each message of the source in the order of
  their first use; a number printed into a message is carried as the constructor's
  argument, rounded as \<open>toFixed\<close> rounds it.
\<close>

datatype reason =
    RegimeRanging | RegimeTrend regime
  | RsiPullbackUptrend real | RsiExtendedUptrend real | RsiHealthyUptrend real
  | RsiBounceDowntrend real | RsiDeeplyOversold real | RsiNeutralDowntrend real
  | RsiOversoldRange real | RsiOverboughtRange real | RsiNeutralRange real
  | MacdFreshBullish | MacdBullishStrengthening | MacdRemainsBullish
  | MacdFreshBearish | MacdBearishStrengthening | MacdRemainsBearish | MacdEquilibrium
  | BollingerLowerTouch real | BollingerUpperTouch real | BollingerCompressed
  | EmaBullish | EmaBearish | EmaMixed | AboveSma200 | BelowSma200
  | MomentumUp | MomentumDown | MomentumMixed
  | VolumeSpike real | VolumeLow real
  | ContradictionPenalty | InsufficientEdge

record score_state =
  buyScore :: real
  sellScore :: real
  buyEvidence :: nat
  sellEvidence :: nat
  reasons :: "reason list"

definition score_init :: score_state where
  "score_init = \<lparr>buyScore = 0, sellScore = 0, buyEvidence = 0, sellEvidence = 0, reasons = []\<rparr>"

definition push_reason :: "reason \<Rightarrow> score_state \<Rightarrow> score_state" where
  "push_reason r st = st\<lparr>reasons := reasons st @ [r]\<rparr>"

definition addBuy :: "real \<Rightarrow> reason \<Rightarrow> score_state \<Rightarrow> score_state" where
  "addBuy points r st =
     st\<lparr>buyScore := buyScore st + points, buyEvidence := buyEvidence st + 1,
        reasons := reasons st @ [r]\<rparr>"

definition addSell :: "real \<Rightarrow> reason \<Rightarrow> score_state \<Rightarrow> score_state" where
  "addSell points r st =
     st\<lparr>sellScore := sellScore st + points, sellEvidence := sellEvidence st + 1,
        reasons := reasons st @ [r]\<rparr>"

text \<open>\<open>buyScore *= f; sellScore *= f\<close>\<close>

definition scale_scores :: "real \<Rightarrow> score_state \<Rightarrow> score_state" where
  "scale_scores f st = st\<lparr>buyScore := buyScore st * f, sellScore := sellScore st * f\<rparr>"

subsection \<open>Regime detection\<close>

definition trendBias_of :: "real option \<Rightarrow> real option \<Rightarrow> real \<Rightarrow> jsnum" where
  "trendBias_of ema20 ema50 price =
     (case (ema20, ema50) of
        (Some e20, Some e50) \<Rightarrow> js_div (Fin (e20 - e50)) (Fin price)
      | _ \<Rightarrow> Fin 0)"

definition regime_of :: "jsnum \<Rightarrow> regime" where
  "regime_of trendBias =
     (let strongTrend = js_ge (js_abs trendBias) (Fin 0.012)
      in if strongTrend then (if js_gt trendBias (Fin 0) then Uptrend else Downtrend)
         else Range)"

text \<open>The regime of a candle sequence at its current price.\<close>

definition current_regime :: "candle list \<Rightarrow> real \<Rightarrow> regime" where
  "current_regime ohlcv price =
     (let ind = analyzeIndicators ohlcv
      in regime_of (trendBias_of (ind_ema20 ind) (ind_ema50 ind) price))"

definition regime_rule :: "regime \<Rightarrow> score_state \<Rightarrow> score_state" where
  "regime_rule rg st =
     push_reason (if rg = Range then RegimeRanging else RegimeTrend rg) st"

subsection \<open>The rules, in the order of the source\<close>

definition rsi_rule :: "regime \<Rightarrow> real option \<Rightarrow> score_state \<Rightarrow> score_state" where
  "rsi_rule rg rsiVal st =
     (case rsiVal of
        None \<Rightarrow> st
      | Some r \<Rightarrow>
          (if rg = Uptrend then
             (if r < 38 then addBuy 1.6 (RsiPullbackUptrend (toFixed_num r 1)) st
              else if r > 78 then addSell 1.2 (RsiExtendedUptrend (toFixed_num r 1)) st
              else push_reason (RsiHealthyUptrend (toFixed_num r 1)) st)
           else if rg = Downtrend then
             (if r > 62 then addSell 1.6 (RsiBounceDowntrend (toFixed_num r 1)) st
              else if r < 22 then addBuy 1.1 (RsiDeeplyOversold (toFixed_num r 1)) st
              else push_reason (RsiNeutralDowntrend (toFixed_num r 1)) st)
           else
             (if r < 30 then addBuy 1.8 (RsiOversoldRange (toFixed_num r 1)) st
              else if r > 70 then addSell 1.8 (RsiOverboughtRange (toFixed_num r 1)) st
              else push_reason (RsiNeutralRange (toFixed_num r 1)) st)))"

definition macd_rule :: "macd_val \<Rightarrow> macd_val \<Rightarrow> score_state \<Rightarrow> score_state" where
  "macd_rule macdVal prevMacd st =
     (case macd_histogram macdVal of
        None \<Rightarrow> st
      | Some histNow \<Rightarrow>
          (let histPrev = macd_histogram prevMacd
           in if histNow > 0 \<and> to_number (macd_line macdVal) > to_number (macd_signal macdVal) then
                (if (case histPrev of None \<Rightarrow> False | Some hp \<Rightarrow> hp \<le> 0)
                 then addBuy 1.9 MacdFreshBullish st
                 else if (case histPrev of None \<Rightarrow> False | Some hp \<Rightarrow> histNow > hp)
                 then addBuy 1.4 MacdBullishStrengthening st
                 else addBuy 1.1 MacdRemainsBullish st)
              else if histNow < 0 \<and> to_number (macd_line macdVal) < to_number (macd_signal macdVal) then
                (if (case histPrev of None \<Rightarrow> False | Some hp \<Rightarrow> hp \<ge> 0)
                 then addSell 1.9 MacdFreshBearish st
                 else if (case histPrev of None \<Rightarrow> False | Some hp \<Rightarrow> histNow < hp)
                 then addSell 1.4 MacdBearishStrengthening st
                 else addSell 1.1 MacdRemainsBearish st)
              else push_reason MacdEquilibrium st))"

text \<open>The Bollinger block in its two parts: the band touch, then the compression of
  both scores when \<open>bandWidth < 0.04\<close>.\<close>

definition bollinger_touch :: "regime \<Rightarrow> real \<Rightarrow> bb_val \<Rightarrow> score_state \<Rightarrow> score_state" where
  "bollinger_touch rg price bb st =
     (case (bb_lower bb, bb_middle bb, bb_upper bb) of
        (Some lower, Some middle, Some upper) \<Rightarrow>
          (if price \<le> lower then
             addBuy (if rg = Downtrend then 0.8 else 1.4) (BollingerLowerTouch (toFixed_num lower 2)) st
           else if price \<ge> upper then
             addSell (if rg = Uptrend then 0.8 else 1.4) (BollingerUpperTouch (toFixed_num upper 2)) st
           else st)
      | _ \<Rightarrow> st)"

definition bollinger_compress :: "bb_val \<Rightarrow> score_state \<Rightarrow> score_state" where
  "bollinger_compress bb st =
     (case (bb_lower bb, bb_middle bb, bb_upper bb) of
        (Some lower, Some middle, Some upper) \<Rightarrow>
          (let bandWidth = js_div (Fin (upper - lower)) (Fin middle)
           in if js_lt bandWidth (Fin 0.04)
              then scale_scores 0.95 (push_reason BollingerCompressed st)
              else st)
      | _ \<Rightarrow> st)"

definition ema_rule :: "real \<Rightarrow> real option \<Rightarrow> real option \<Rightarrow> score_state \<Rightarrow> score_state" where
  "ema_rule price ema20 ema50 st =
     (case (ema20, ema50) of
        (Some e20, Some e50) \<Rightarrow>
          (if price > e20 \<and> e20 > e50 then addBuy 1.5 EmaBullish st
           else if price < e20 \<and> e20 < e50 then addSell 1.5 EmaBearish st
           else push_reason EmaMixed st)
      | _ \<Rightarrow> st)"

definition sma200_rule :: "real \<Rightarrow> real option \<Rightarrow> score_state \<Rightarrow> score_state" where
  "sma200_rule price sma200 st =
     (case sma200 of
        None \<Rightarrow> st
      | Some s \<Rightarrow> if price > s then addBuy 0.7 AboveSma200 st else addSell 0.7 BelowSma200 st)"

definition momentum_rule :: "real option \<Rightarrow> real option \<Rightarrow> score_state \<Rightarrow> score_state" where
  "momentum_rule momentum3 momentum10 st =
     (case (momentum3, momentum10) of
        (Some m3, Some m10) \<Rightarrow>
          (if m3 > 0 \<and> m10 > 0 then addBuy 1.1 MomentumUp st
           else if m3 < 0 \<and> m10 < 0 then addSell 1.1 MomentumDown st
           else push_reason MomentumMixed st)
      | _ \<Rightarrow> st)"

definition volume_rule :: "real option \<Rightarrow> score_state \<Rightarrow> score_state" where
  "volume_rule volumeRatio st =
     (case volumeRatio of
        None \<Rightarrow> st
      | Some vr \<Rightarrow>
          (if vr > 1.6 then
             (let st' = push_reason (VolumeSpike (toFixed_num vr 2)) st
              in if buyScore st' > sellScore st' then st'\<lparr>buyScore := buyScore st' + 0.6\<rparr>
                 else if sellScore st' > buyScore st' then st'\<lparr>sellScore := sellScore st' + 0.6\<rparr>
                 else st')
           else if vr < 0.75 then
             scale_scores 0.93 (push_reason (VolumeLow (toFixed_num vr 2)) st)
           else st))"

definition contradiction_rule :: "score_state \<Rightarrow> score_state" where
  "contradiction_rule st =
     (if buyScore st > 0 \<and> sellScore st > 0 then
        (let overlap = min (buyScore st) (sellScore st) * 0.35
         in push_reason ContradictionPenalty
              (st\<lparr>buyScore := buyScore st - overlap, sellScore := sellScore st - overlap\<rparr>))
      else st)"

text \<open>\<open>closes.length > 30 ? macd(closes.slice(0, -1)) : {line: null, ...}\<close>\<close>

definition prevMacd_of :: "real list \<Rightarrow> macd_val" where
  "prevMacd_of closes = (if length closes > 30 then macd (butlast closes) else macd_null)"

text \<open>
  The score state after each step of the pass, oldest first: the initial state, then the
  state after the regime reason, the RSI rule, the MACD rule, the Bollinger touch, the
  Bollinger compression, the EMA rule, the SMA200 rule, the momentum rule, the volume
  rule and the contradiction penalty.
\<close>

definition score_trace :: "candle list \<Rightarrow> real \<Rightarrow> score_state list" where
  "score_trace ohlcv price =
     (let ind = analyzeIndicators ohlcv;
          prevMacd = prevMacd_of (map close ohlcv);
          rg = current_regime ohlcv price;
          s0 = score_init;
          s1 = regime_rule rg s0;
          s2 = rsi_rule rg (ind_rsi ind) s1;
          s3 = macd_rule (ind_macd ind) prevMacd s2;
          s4 = bollinger_touch rg price (ind_bollingerBands ind) s3;
          s5 = bollinger_compress (ind_bollingerBands ind) s4;
          s6 = ema_rule price (ind_ema20 ind) (ind_ema50 ind) s5;
          s7 = sma200_rule price (ind_sma200 ind) s6;
          s8 = momentum_rule (ind_momentum3 ind) (ind_momentum10 ind) s7;
          s9 = volume_rule (ind_volumeRatio ind) s8;
          s10 = contradiction_rule s9
      in [s0, s1, s2, s3, s4, s5, s6, s7, s8, s9, s10])"

text \<open>The state the decision reads: the last of the trace.\<close>

definition score_pass :: "candle list \<Rightarrow> real \<Rightarrow> score_state" where
  "score_pass ohlcv price = last (score_trace ohlcv price)"

section \<open>Threshold, decision and confidence\<close>

definition thresholds :: "(string \<times> real) list" where
  "thresholds = [(''conservative'', 4.9), (''moderate'', 3.6), (''aggressive'', 2.6)]"

text \<open>
  \<open>thresholds[riskTolerance] || 3.6\<close>, then the two increments. An inherited property
  is truthy, \<open>+= 0.2\<close> turns it into a string, and every comparison of a score with
  that string is false: the threshold is then \<open>None\<close>.
\<close>

definition threshold_of :: "string \<Rightarrow> regime \<Rightarrow> real option \<Rightarrow> real option" where
  "threshold_of riskTolerance rg volatility20 =
     (case js_get thresholds riskTolerance of
        Inherited \<Rightarrow> None
      | p \<Rightarrow>
          (let threshold = (case p of Own v \<Rightarrow> v | _ \<Rightarrow> 3.6);
               threshold = (if rg = Range then threshold + 0.2 else threshold);
               threshold = (if (case volatility20 of None \<Rightarrow> False | Some v \<Rightarrow> v > 0.025)
                            then threshold + 0.2 else threshold)
           in Some threshold))"

text \<open>\<open>score >= threshold\<close>\<close>

definition meets :: "real \<Rightarrow> real option \<Rightarrow> bool" where
  "meets score threshold = (case threshold of None \<Rightarrow> False | Some t \<Rightarrow> score \<ge> t)"

definition decide :: "real \<Rightarrow> real \<Rightarrow> real option \<Rightarrow> trade_signal" where
  "decide buy sell threshold =
     (let edge = \<bar>buy - sell\<bar>
      in if meets buy threshold \<and> buy > sell \<and> edge \<ge> 0.9 then BUY
         else if meets sell threshold \<and> sell > buy \<and> edge \<ge> 0.9 then SELL
         else HOLD)"

definition confidence_of :: "trade_signal \<Rightarrow> score_state \<Rightarrow> real" where
  "confidence_of sg st =
     (let edge = \<bar>buyScore st - sellScore st\<bar>;
          dominantScore = max (buyScore st) (sellScore st)
      in if sg = HOLD then clamp (42 + edge * 6) 40 65
         else (let evidenceCount = (if sg = BUY then buyEvidence st else sellEvidence st)
               in clamp (dominantScore * 13 + edge * 16 + real evidenceCount * 2) 55 95))"

section \<open>Targets and the returned object\<close>

definition targets :: "(string \<times> real \<times> real \<times> real) list" where
  "targets = [(''scalp'', (rd 0.01, rd 0.02, rd 0.005)), (''swing'', (rd 0.03, rd 0.08, rd 0.015)),
              (''position'', (rd 0.10, rd 0.20, rd 0.03))]"

text \<open>\<open>signal !== 'HOLD' ? +((Math.abs(tp2 - price) / Math.abs(price - sl)) || 0).toFixed(2) : 0\<close>\<close>

definition riskReward_of :: "trade_signal \<Rightarrow> real \<Rightarrow> real \<Rightarrow> jsnum \<Rightarrow> jsnum" where
  "riskReward_of sg price tp2 sl =
     (if sg \<noteq> HOLD
      then js_toFixed
             (js_or_zero (d_div (js_abs (d_sub (Fin tp2) (Fin price)))
                                (js_abs (d_sub (Fin price) sl)))) 2
      else Fin 0)"

record indicators_out =
  out_rsi :: "real option"
  out_macd :: macd_val
  out_bollingerBands :: bb_val
  out_ema20 :: "real option"
  out_ema50 :: "real option"
  out_sma200 :: "real option"
  out_atr14 :: "real option"
  out_momentum3 :: "real option"
  out_momentum10 :: "real option"
  out_volatility20 :: "real option"
  out_volumeRatio :: "real option"

text \<open>\<open>x !== null ? +x.toFixed(d) : null\<close>\<close>

definition round_opt :: "real option \<Rightarrow> nat \<Rightarrow> real option" where
  "round_opt x d = (case x of None \<Rightarrow> None | Some v \<Rightarrow> Some (toFixed v d))"

definition display_indicators :: "indicator_set \<Rightarrow> indicators_out" where
  "display_indicators ind =
     \<lparr>out_rsi = round_opt (ind_rsi ind) 2,
      out_macd =
        \<lparr>macd_line = round_opt (macd_line (ind_macd ind)) 4,
         macd_signal = round_opt (macd_signal (ind_macd ind)) 4,
         macd_histogram = round_opt (macd_histogram (ind_macd ind)) 4\<rparr>,
      out_bollingerBands =
        \<lparr>bb_upper = round_opt (bb_upper (ind_bollingerBands ind)) 2,
         bb_middle = round_opt (bb_middle (ind_bollingerBands ind)) 2,
         bb_lower = round_opt (bb_lower (ind_bollingerBands ind)) 2\<rparr>,
      out_ema20 = round_opt (ind_ema20 ind) 2,
      out_ema50 = round_opt (ind_ema50 ind) 2,
      out_sma200 = round_opt (ind_sma200 ind) 2,
      out_atr14 = round_opt (ind_atr14 ind) 4,
      out_momentum3 = round_opt (map_option (\<lambda>m. m * 100) (ind_momentum3 ind)) 2,
      out_momentum10 = round_opt (map_option (\<lambda>m. m * 100) (ind_momentum10 ind)) 2,
      out_volatility20 = round_opt (map_option (\<lambda>v. v * 100) (ind_volatility20 ind)) 2,
      out_volumeRatio = round_opt (ind_volumeRatio ind) 2\<rparr>"

text \<open>The returned object without its \<open>timestamp\<close>, which is the clock at the return.
  The fields computed from a quotient by the price can be infinite or NaN.\<close>

record signal_result =
  signal :: trade_signal
  confidence :: real
  currentPrice :: real
  entryRange_low :: jsnum
  entryRange_high :: jsnum
  takeProfit1 :: real
  takeProfit1Pct :: real
  takeProfit2 :: real
  takeProfit2Pct :: real
  stopLoss :: jsnum
  stopLossPct :: jsnum
  riskReward :: jsnum
  result_reasons :: "reason list"
  indicators :: indicators_out
  dataSource :: string

datatype js_error = TypeError

text \<open>The parts of the target calculation that read the ATR.\<close>

definition atrPct_of :: "real option \<Rightarrow> real \<Rightarrow> jsnum option" where
  "atrPct_of atr14 price =
     (case atr14 of None \<Rightarrow> None | Some a \<Rightarrow> Some (d_div (Fin a) (Fin price)))"

definition entryPadPct_of :: "jsnum option \<Rightarrow> jsnum" where
  "entryPadPct_of atrPct =
     clamp_js (case atrPct of None \<Rightarrow> Fin (rd 0.002) | Some a \<Rightarrow> d_mul a (Fin (rd 0.3)))
       (Fin (rd 0.0015)) (Fin (rd 0.008))"

definition dynamicSlPct_of :: "real \<Rightarrow> jsnum option \<Rightarrow> jsnum" where
  "dynamicSlPct_of slPct atrPct =
     clamp_js (case atrPct of None \<Rightarrow> Fin slPct
               | Some a \<Rightarrow> js_max (Fin slPct) (d_mul a (Fin (rd 1.1))))
       (Fin (rd (slPct * rd 0.85))) (Fin (rd (slPct * rd 1.9)))"

text \<open>\<open>targets[signalType] || targets.swing\<close>, destructured: an inherited property is
  not iterable.\<close>

definition target_pcts :: "string \<Rightarrow> js_error + real \<times> real \<times> real" where
  "target_pcts signalType =
     (case js_get targets signalType of
        Inherited \<Rightarrow> Inl TypeError
      | Own t \<Rightarrow> Inr t
      | Absent \<Rightarrow> Inr (rd 0.03, rd 0.08, rd 0.015))"

text \<open>
  \<open>generateSignal\<close> throws a TypeError in two places: at the destructuring of the
  targets, and at \<open>price.toFixed\<close> when the candle array is empty and \<open>price\<close> is
  \<open>undefined\<close>.
\<close>

definition generateSignal :: "candle list \<Rightarrow> string \<Rightarrow> string \<Rightarrow> js_error + signal_result" where
  "generateSignal ohlcv signalType riskTolerance =
     (let ind = analyzeIndicators ohlcv
      in case ind_currentPrice ind of
           None \<Rightarrow> Inl TypeError
         | Some price \<Rightarrow>
             (let rg = current_regime ohlcv price;
                  st = score_pass ohlcv price;
                  threshold = threshold_of riskTolerance rg (ind_volatility20 ind);
                  sg = decide (buyScore st) (sellScore st) threshold;
                  st = (if sg = HOLD then push_reason InsufficientEdge st else st);
                  conf = confidence_of sg st
              in case target_pcts signalType of
                   Inl e \<Rightarrow> Inl e
                 | Inr (tp1Pct, tp2Pct, slPct) \<Rightarrow>
                     (let dir = (if sg = SELL then - 1 else 1);
                          atrPct = atrPct_of (ind_atr14 ind) price;
                          entryPadPct = entryPadPct_of atrPct;
                          dynamicSlPct = dynamicSlPct_of slPct atrPct;
                          entryLow = js_toFixed (d_mul (Fin price) (d_sub (Fin 1) entryPadPct)) 2;
                          entryHigh = js_toFixed (d_mul (Fin price) (d_add (Fin 1) entryPadPct)) 2;
                          tp1 = toFixed (rd (price * rd (1 + rd (dir * tp1Pct)))) 2;
                          tp2 = toFixed (rd (price * rd (1 + rd (dir * tp2Pct)))) 2;
                          sl = js_toFixed
                                 (d_mul (Fin price) (d_sub (Fin 1) (d_mul (Fin dir) dynamicSlPct))) 2
                      in Inr \<lparr>signal = sg,
                              confidence = toFixed conf 1,
                              currentPrice = toFixed price 2,
                              entryRange_low = entryLow,
                              entryRange_high = entryHigh,
                              takeProfit1 = tp1,
                              takeProfit1Pct = toFixed (rd (rd (dir * tp1Pct) * 100)) 2,
                              takeProfit2 = tp2,
                              takeProfit2Pct = toFixed (rd (rd (dir * tp2Pct) * 100)) 2,
                              stopLoss = sl,
                              stopLossPct =
                                js_toFixed (d_mul (d_mul (Fin (- dir)) dynamicSlPct) (Fin 100)) 2,
                              riskReward = riskReward_of sg price tp2 sl,
                              result_reasons = reasons st,
                              indicators = display_indicators ind,
                              dataSource = ''live''\<rparr>)))"

section \<open>The synthetic candle generator\<close>

definition basePrices :: "(string \<times> real) list" where
  "basePrices =
     [(''BTCUSDT'', 96500), (''ETHUSDT'', 2700), (''SOLUSDT'', 195), (''BNBUSDT'', 640),
      (''XRPUSDT'', 2.65), (''ADAUSDT'', 0.78), (''AVAXUSDT'', 36), (''DOGEUSDT'', 0.26)]"

definition msMap :: "(string \<times> int) list" where
  "msMap = [(''15m'', 900000), (''1h'', 3600000), (''4h'', 14400000), (''1d'', 86400000)]"

text \<open>
  \<open>seed = ((seed << 5) - seed + ch.charCodeAt(0)) | 0\<close> over the characters of
  \<open>symbol + timeframe\<close>: 32-bit arithmetic that wraps. A character is one of the 256
  of \<open>char\<close>.
\<close>

fun hash_seed :: "32 word \<Rightarrow> string \<Rightarrow> 32 word" where
  "hash_seed seed [] = seed"
| "hash_seed seed (ch # cs) = hash_seed (push_bit 5 seed - seed + word_of_nat (of_char ch)) cs"

text \<open>The remainder \<open>%\<close> of JavaScript truncates: its sign is the dividend's.\<close>

definition js_rem :: "int \<Rightarrow> int \<Rightarrow> int" where
  "js_rem a b = sgn a * (\<bar>a\<bar> mod \<bar>b\<bar>)"

text \<open>
  \<open>rand\<close> steps the seed and returns the new seed with the number drawn:
  \<open>seed = (seed * 16807 + 0) % 2147483647; return (seed & 0x7fffffff) / 2147483647\<close>.
  The product stays below \<open>2^53\<close>, so it is exact in the source too.
\<close>

definition rand :: "int \<Rightarrow> int \<times> real" where
  "rand seed =
     (let seed' = js_rem (seed * 16807 + 0) 2147483647
      in (seed', real_of_int (seed' AND 2147483647) / 2147483647))"

text \<open>
  The candles of the generator. Its prices are NaN when \<open>symbol\<close> names an inherited
  property, and its timestamps are NaN and strings when \<open>timeframe\<close> does. A string
  timestamp is kept as the list of the pieces that \<open>+=\<close> concatenated: the text of NaN,
  the digits of a number, or the text of the inherited function or object.
\<close>

datatype ts_piece = NaNText | NumText int | InheritedText

datatype js_ts = TsNum int | TsNaN | TsStr "ts_piece list"

record demo_candle =
  demo_timestamp :: js_ts
  demo_open :: jsnum
  demo_high :: jsnum
  demo_low :: jsnum
  demo_close :: jsnum
  demo_volume :: real

text \<open>\<open>msMap[timeframe] || 14400000\<close>; \<open>None\<close> is the inherited function or object,
  which is truthy and kept.\<close>

definition intervalMs_of :: "string \<Rightarrow> int option" where
  "intervalMs_of timeframe =
     (case js_get msMap timeframe of
        Own v \<Rightarrow> Some v
      | Absent \<Rightarrow> Some 14400000
      | Inherited \<Rightarrow> None)"

text \<open>\<open>Date.now() - limit * intervalMs\<close>: NaN when \<open>intervalMs\<close> is not a number.\<close>

definition ts_start :: "int \<Rightarrow> nat \<Rightarrow> int option \<Rightarrow> js_ts" where
  "ts_start now limit intervalMs =
     (case intervalMs of Some i \<Rightarrow> TsNum (now - int limit * i) | None \<Rightarrow> TsNaN)"

text \<open>\<open>ts += intervalMs\<close>: an addition of numbers, and a concatenation of strings as soon
  as one side is a string or the inherited function or object.\<close>

fun ts_add :: "js_ts \<Rightarrow> int option \<Rightarrow> js_ts" where
  "ts_add (TsNum t) (Some i) = TsNum (t + i)"
| "ts_add (TsNum t) None = TsStr [NumText t, InheritedText]"
| "ts_add TsNaN (Some i) = TsNaN"
| "ts_add TsNaN None = TsStr [NaNText, InheritedText]"
| "ts_add (TsStr ps) (Some i) = TsStr (ps @ [NumText i])"
| "ts_add (TsStr ps) None = TsStr (ps @ [InheritedText])"

text \<open>\<open>basePrices[symbol] || 50000\<close>. An inherited function or object is truthy and
  kept; it converts to NaN at its first use, the multiplication \<open>price *= 1 + change\<close>.\<close>

definition basePrice_of :: "string \<Rightarrow> jsnum" where
  "basePrice_of symbol =
     (case js_get basePrices symbol of
        Own v \<Rightarrow> Fin v
      | Absent \<Rightarrow> Fin 50000
      | Inherited \<Rightarrow> NaN)"

text \<open>The loop body, \<open>n\<close> iterations to go; the five draws are in the order of the
  source.\<close>

fun demo_loop ::
  "nat \<Rightarrow> int option \<Rightarrow> real \<Rightarrow> real \<Rightarrow> int \<Rightarrow> jsnum \<Rightarrow> js_ts \<Rightarrow> demo_candle list" where
  "demo_loop 0 intervalMs trend volatility seed price ts = []"
| "demo_loop (Suc n) intervalMs trend volatility seed price ts =
     (let (seed, r) = rand seed;
          change = (r - 0.5 + trend * 0.002) * volatility;
          price = js_mul price (Fin (1 + change));
          (seed, r) = rand seed;
          high = js_mul price (Fin (1 + r * volatility * 0.5));
          (seed, r) = rand seed;
          low = js_mul price (Fin (1 - r * volatility * 0.5));
          (seed, r) = rand seed;
          close = js_add low (js_mul (Fin r) (js_sub high low));
          (seed, r) = rand seed;
          volume = 100000 + r * 400000
      in \<lparr>demo_timestamp = ts, demo_open = price, demo_high = high, demo_low = low,
          demo_close = close, demo_volume = volume\<rparr>
         # demo_loop n intervalMs trend volatility seed close (ts_add ts intervalMs))"

text \<open>
  \<open>generateDemoData(symbol, timeframe, limit)\<close>, with the value that \<open>Date.now()\<close>
  returns as the argument \<open>now\<close>. \<open>limit\<close> is a count of candles; the products with
  the interval stay below \<open>2^53\<close>.
\<close>

definition generateDemoData :: "string \<Rightarrow> string \<Rightarrow> nat \<Rightarrow> int \<Rightarrow> demo_candle list" where
  "generateDemoData symbol timeframe limit now =
     (let price = basePrice_of symbol;
          seed = sint (hash_seed 0 (symbol @ timeframe));
          (seed, r) = rand seed;
          trend = (if r > 0.5 then 1 else - 1);
          (seed, r) = rand seed;
          volatility = 0.01 + r * 0.02;
          intervalMs = intervalMs_of timeframe;
          ts = ts_start now limit intervalMs
      in demo_loop limit intervalMs trend volatility seed price ts)"

text \<open>The fields of a generated candle other than its timestamp.\<close>

definition ohlcv_of :: "demo_candle \<Rightarrow> jsnum \<times> jsnum \<times> jsnum \<times> jsnum \<times> real" where
  "ohlcv_of c = (demo_open c, demo_high c, demo_low c, demo_close c, demo_volume c)"

text \<open>The timestamp of candle \<open>k\<close> when the interval is the inherited function or object.\<close>

definition inherited_ts :: "nat \<Rightarrow> js_ts" where
  "inherited_ts k = (if k = 0 then TsNaN else TsStr (NaNText # replicate k InheritedText))"

section \<open>Predicates and sample inputs of the theorems\<close>

definition nonneg_scores :: "score_state \<Rightarrow> bool" where
  "nonneg_scores st = (0 \<le> buyScore st \<and> 0 \<le> sellScore st)"

text \<open>A candle whose open, high, low and close are the same price.\<close>

definition flat_candle :: "real \<Rightarrow> real \<Rightarrow> candle" where
  "flat_candle p v =
     \<lparr>timestamp = 0, open_price = p, high = p, low = p, close = p, volume = v\<rparr>"

text \<open>Fifteen candles: a fall from 106 to 97, a pause, a rise to 100 on a volume spike,
  with all prices multiplied by \<open>c\<close>.\<close>

definition dip_closes :: "real list" where
  "dip_closes = [106, 103, 100, 97, 97, 97, 97, 97, 97, 97, 97, 97, 98, 99, 100]"

definition dip_candles :: "real \<Rightarrow> candle list" where
  "dip_candles c =
     map (\<lambda>p. flat_candle (c * p) 1) (butlast dip_closes) @ [flat_candle (c * last dip_closes) 100]"

text \<open>The same fifteen candles at one ten-thousandth of these prices, each price the
  double nearest to the decimal, \<open>0.0106\<close> down to \<open>0.0097\<close> and up to \<open>0.01\<close>.\<close>

definition cent_candles :: "candle list" where
  "cent_candles =
     map (\<lambda>p. flat_candle (rd (p / 10000)) 1) (butlast dip_closes)
     @ [flat_candle (rd (last dip_closes / 10000)) 100]"

text \<open>
  Three hundred candles with strictly increasing closes: 283 steps of 1 from 10000, six
  steps of 50, then steps of 1 up to 10593, on even volume with a spike at the last
  candle.
\<close>

definition rise_head :: "real list" where
  "rise_head =
     [10000, 10001, 10002, 10003, 10004, 10005, 10006, 10007, 10008, 10009, 10010, 10011,
      10012, 10013, 10014, 10015, 10016, 10017, 10018, 10019, 10020, 10021, 10022, 10023,
      10024, 10025, 10026, 10027, 10028, 10029, 10030, 10031, 10032, 10033, 10034, 10035,
      10036, 10037, 10038, 10039, 10040, 10041, 10042, 10043, 10044, 10045, 10046, 10047,
      10048, 10049, 10050, 10051, 10052, 10053, 10054, 10055, 10056, 10057, 10058, 10059,
      10060, 10061, 10062, 10063, 10064, 10065, 10066, 10067, 10068, 10069, 10070, 10071,
      10072, 10073, 10074, 10075, 10076, 10077, 10078, 10079, 10080, 10081, 10082, 10083,
      10084, 10085, 10086, 10087, 10088, 10089, 10090, 10091, 10092, 10093, 10094, 10095,
      10096, 10097, 10098, 10099, 10100, 10101, 10102, 10103, 10104, 10105, 10106, 10107,
      10108, 10109, 10110, 10111, 10112, 10113, 10114, 10115, 10116, 10117, 10118, 10119,
      10120, 10121, 10122, 10123, 10124, 10125, 10126, 10127, 10128, 10129, 10130, 10131,
      10132, 10133, 10134, 10135, 10136, 10137, 10138, 10139, 10140, 10141, 10142, 10143,
      10144, 10145, 10146, 10147, 10148, 10149, 10150, 10151, 10152, 10153, 10154, 10155,
      10156, 10157, 10158, 10159, 10160, 10161, 10162, 10163, 10164, 10165, 10166, 10167,
      10168, 10169, 10170, 10171, 10172, 10173, 10174, 10175, 10176, 10177, 10178, 10179,
      10180, 10181, 10182, 10183, 10184, 10185, 10186, 10187, 10188, 10189, 10190, 10191,
      10192, 10193, 10194, 10195, 10196, 10197, 10198, 10199, 10200, 10201, 10202, 10203,
      10204, 10205, 10206, 10207, 10208, 10209, 10210, 10211, 10212, 10213, 10214, 10215,
      10216, 10217, 10218, 10219, 10220, 10221, 10222, 10223, 10224, 10225, 10226, 10227,
      10228, 10229, 10230, 10231, 10232, 10233, 10234, 10235, 10236, 10237, 10238, 10239,
      10240, 10241, 10242, 10243, 10244, 10245, 10246, 10247, 10248, 10249, 10250, 10251,
      10252, 10253, 10254, 10255, 10256, 10257, 10258, 10259, 10260, 10261, 10262, 10263,
      10264, 10265, 10266, 10267, 10268, 10269, 10270, 10271, 10272, 10273, 10274, 10275,
      10276, 10277, 10278, 10279, 10280, 10281, 10282, 10332, 10382, 10432, 10482, 10532,
      10582, 10583, 10584, 10585, 10586, 10587, 10588, 10589, 10590, 10591, 10592]"

definition rise_closes :: "real list" where
  "rise_closes = rise_head @ [10593]"

definition rise_candles :: "candle list" where
  "rise_candles = map (\<lambda>p. flat_candle p 1) rise_head @ [flat_candle 10593 100]"

text \<open>Fifteen candles falling by one from 115 to 101 on even volume.\<close>

definition fall_closes :: "real list" where
  "fall_closes = [115, 114, 113, 112, 111, 110, 109, 108, 107, 106, 105, 104, 103, 102, 101]"

definition fall_candles :: "candle list" where
  "fall_candles = map (\<lambda>p. flat_candle p 1) fall_closes"

section \<open>Properties of the indicators\<close>

lemma reduce_sum_foldl: "foldl (\<lambda>s v. s + v) (a :: real) xs = a + sum_list xs"
  by (induction xs arbitrary: a) simp_all

lemma reduce_sum_sum_list: "reduce_sum xs = sum_list xs"
  by (simp add: reduce_sum_def reduce_sum_foldl)

lemma length_macd_history [simp]: "length (macd_history k12 k26 e12 e26 ps) = length ps"
  by (induction ps arbitrary: e12 e26) (simp_all add: Let_def)

lemma rsi_loop_nonneg:
  "0 \<le> g \<Longrightarrow> 0 \<le> l \<Longrightarrow> 0 \<le> fst (rsi_loop (g, l) ds) \<and> 0 \<le> snd (rsi_loop (g, l) ds)"
  by (induction ds arbitrary: g l) auto

lemma rsi_loop_no_loss:
  "\<forall>d\<in>set ds. 0 \<le> d \<Longrightarrow> snd (rsi_loop (g, l) ds) = l"
  by (induction ds arbitrary: g l) auto

lemma rsi_formula_bounds:
  fixes g l :: real
  assumes "0 \<le> g" "0 < l"
  shows "0 \<le> 100 - 100 / (1 + g / l)" "100 - 100 / (1 + g / l) \<le> 100"
proof -
  have q: "0 \<le> g / l" using assms by simp
  then have "100 / (1 + g / l) \<le> 100 / 1"
    by (intro divide_left_mono) simp_all
  then show "0 \<le> 100 - 100 / (1 + g / l)" by simp
  have "0 \<le> 100 / (1 + g / l)" using q by simp
  then show "100 - 100 / (1 + g / l) \<le> 100" by simp
qed

text \<open>
  Claim C8. On a price sequence of exactly \<open>period\<close> values the exponential average is
  its seed, the simple average of these values, so \<open>ema\<close> and \<open>sma\<close> return the same.
\<close>

theorem ema_eq_sma_at_seed:
  "length closes = period \<Longrightarrow> ema closes period = sma closes period"
  by (simp add: ema_def sma_def slice_last_def Let_def)

theorem ema_eq_sma_at_seed_witness:
  "length [1, 2, 6 :: real] = 3 \<and> ema [1, 2, 6] 3 = sma [1, 2, 6] 3 \<and> sma [1, 2, 6] 3 = Some 3"
  using ema_eq_sma_at_seed [of "[1, 2, 6]" 3] by (simp add: sma_def slice_last_def reduce_sum_def)

text \<open>
  Claim C4. \<open>macd\<close> returns the all-null triple on fewer than 26 closes, and its
  \<open>signal\<close> field, and with it \<open>histogram\<close>, is non-null exactly when there are at
  least 35 closes, that is at least 9 points of MACD history.
\<close>

theorem macd_null_fields:
  "(length closes < 26 \<longrightarrow>
      macd closes = \<lparr>macd_line = None, macd_signal = None, macd_histogram = None\<rparr>)
   \<and> (macd_signal (macd closes) \<noteq> None \<longleftrightarrow> 35 \<le> length closes)
   \<and> (macd_histogram (macd closes) \<noteq> None \<longleftrightarrow> 35 \<le> length closes)"
  by (auto simp: macd_def macd_null_def ema_def Let_def)

theorem macd_null_fields_witness:
  "macd [1, 2, 3] = \<lparr>macd_line = None, macd_signal = None, macd_histogram = None\<rparr>
   \<and> macd_signal (macd (replicate 34 7)) = None
   \<and> macd_signal (macd (replicate 35 7)) \<noteq> None
   \<and> macd_histogram (macd (replicate 35 7)) \<noteq> None"
  using macd_null_fields [of "[1, 2, 3]"] macd_null_fields [of "replicate 34 7"]
    macd_null_fields [of "replicate 35 7"]
  by simp

lemma length_deltas: "length (deltas xs) = length xs - 1"
  by (induction xs rule: deltas.induct) simp_all

lemma deltas_nth: "i + 1 < length xs \<Longrightarrow> deltas xs ! i = xs ! (i + 1) - xs ! i"
proof (induction xs arbitrary: i rule: deltas.induct)
  case (1 a b xs)
  then show ?case by (cases i) simp_all
qed simp_all

text \<open>The loop of \<open>rsi\<close> visits the deltas \<open>prices[i] - prices[i - 1]\<close> for the last
  \<open>period\<close> indices \<open>i\<close>, and no others.\<close>

lemma rsi_window_nonneg:
  assumes "period + 1 \<le> length prices"
    and "\<forall>i. length prices - period \<le> i \<and> i < length prices \<longrightarrow> prices ! (i - 1) \<le> prices ! i"
  shows "\<forall>d\<in>set (rsi_window prices period). 0 \<le> d"
proof
  fix d assume "d \<in> set (rsi_window prices period)"
  then obtain j where j: "j < length (rsi_window prices period)" "d = rsi_window prices period ! j"
    by (metis in_set_conv_nth)
  define k where "k = length prices - (period + 1)"
  have len: "length (drop k prices) = period + 1" using assms(1) by (simp add: k_def)
  have jp: "j < period" using j(1) len by (simp add: rsi_window_def length_deltas k_def)
  have "d = drop k prices ! (j + 1) - drop k prices ! j"
    using j(2) jp len unfolding rsi_window_def k_def [symmetric] by (simp add: deltas_nth)
  also have "\<dots> = prices ! (k + j + 1) - prices ! (k + j)"
    using assms(1) jp by (simp add: k_def)
  finally have d: "d = prices ! (k + j + 1) - prices ! (k + j)" .
  have "length prices - period \<le> k + j + 1 \<and> k + j + 1 < length prices"
    using assms(1) jp unfolding k_def by linarith
  then have "prices ! (k + j + 1 - 1) \<le> prices ! (k + j + 1)" using assms(2) by blast
  then show "0 \<le> d" using d by simp
qed

text \<open>
  Claim C3. On at least \<open>period + 1\<close> prices \<open>rsi\<close> returns a number between 0 and
  100, and it returns exactly 100 when none of the last \<open>period\<close> deltas
  \<open>prices[i] - prices[i - 1]\<close>, those with \<open>length - period \<le> i < length\<close>, is
  negative: the average loss is then zero and the source returns 100 before it divides.
  Deltas before this window do not matter.
\<close>

theorem rsi_bounds:
  assumes "period + 1 \<le> length prices"
  shows "(\<exists>r. rsi prices period = Some r \<and> 0 \<le> r \<and> r \<le> 100)
         \<and> ((\<forall>i. length prices - period \<le> i \<and> i < length prices
                  \<longrightarrow> prices ! (i - 1) \<le> prices ! i)
              \<longrightarrow> rsi prices period = Some 100)"
proof -
  obtain g l where gl: "rsi_loop (0, 0) (rsi_window prices period) = (g, l)"
    by (cases "rsi_loop (0, 0) (rsi_window prices period)")
  have nonneg: "0 \<le> g" "0 \<le> l"
    using rsi_loop_nonneg [of 0 0 "rsi_window prices period"] gl by simp_all
  have bounded: "\<exists>r. rsi prices period = Some r \<and> 0 \<le> r \<and> r \<le> 100"
  proof (cases "l = 0 \<or> period = 0")
    case True
    then show ?thesis using assms gl by (auto simp: rsi_def)
  next
    case False
    then have p: "0 < real period" by simp
    from False have "0 < l / real period" using nonneg p by simp
    moreover have "0 \<le> g / real period" using nonneg p by simp
    ultimately show ?thesis
      using assms gl False rsi_formula_bounds [of "g / real period" "l / real period"]
      by (simp add: rsi_def Let_def)
  qed
  have "rsi prices period = Some 100"
    if "\<forall>i. length prices - period \<le> i \<and> i < length prices \<longrightarrow> prices ! (i - 1) \<le> prices ! i"
  proof -
    have "\<forall>d\<in>set (rsi_window prices period). 0 \<le> d"
      using assms that by (rule rsi_window_nonneg)
    then have "l = 0" using rsi_loop_no_loss [of "rsi_window prices period" 0 0] gl by simp
    then show ?thesis using assms gl by (simp add: rsi_def)
  qed
  with bounded show ?thesis by blast
qed

text \<open>Two inputs with \<open>period = 3\<close>: one with a loss in the window, and one whose only
  fall, from 5 to 1, lies before the window.\<close>

theorem rsi_bounds_witness:
  "rsi [10, 12, 11, 13] 3 = Some 80 \<and> 0 \<le> (80 :: real) \<and> (80 :: real) \<le> 100
   \<and> rsi [5, 1, 2, 2, 3] 3 = Some 100"
proof -
  have a: "rsi [10, 12, 11, 13] 3 = Some 80"
    using rsi_bounds [of 3 "[10, 12, 11, 13]"] by (simp add: rsi_def rsi_window_def)
  have "[5, 1, 2, 2, 3 :: real] ! (i - 1) \<le> [5, 1, 2, 2, 3] ! i" if "2 \<le> i" "i < 5" for i
  proof -
    from that have "i = 2 \<or> i = 3 \<or> i = 4" by auto
    then show ?thesis by auto
  qed
  then have "rsi [5, 1, 2, 2, 3] 3 = Some 100"
    using rsi_bounds [of 3 "[5, 1, 2, 2, 3]"] by simp
  with a show ?thesis by simp
qed

section \<open>Properties of generateSignal\<close>

subsection \<open>The fields of the returned object\<close>

lemma generateSignal_Inr_iff:
  "(\<exists>r. generateSignal ohlcv signalType riskTolerance = Inr r)
   \<longleftrightarrow> ohlcv \<noteq> [] \<and> js_get targets signalType \<noteq> Inherited"
  by (auto simp: generateSignal_def analyzeIndicators_def target_pcts_def Let_def
      split: option.splits sum.splits js_prop.splits prod.splits if_splits)

lemma generateSignal_projr:
  "ohlcv \<noteq> [] \<Longrightarrow> js_get targets signalType \<noteq> Inherited \<Longrightarrow>
   generateSignal ohlcv signalType riskTolerance = Inr (projr (generateSignal ohlcv signalType riskTolerance))"
  using generateSignal_Inr_iff [of ohlcv signalType riskTolerance] by auto

lemma generateSignal_fields:
  assumes "generateSignal ohlcv signalType riskTolerance = Inr r"
  defines "price \<equiv> close (last ohlcv)"
  defines "st \<equiv> score_pass ohlcv price"
  shows "ohlcv \<noteq> []"
    and "signal r = decide (buyScore st) (sellScore st)
           (threshold_of riskTolerance (current_regime ohlcv price)
              (ind_volatility20 (analyzeIndicators ohlcv)))"
    and "confidence r = toFixed (confidence_of (signal r) st) 1"
    and "riskReward r = riskReward_of (signal r) price (takeProfit2 r) (stopLoss r)"
    and "indicators r = display_indicators (analyzeIndicators ohlcv)"
proof -
  show ne: "ohlcv \<noteq> []" using assms(1) generateSignal_Inr_iff by blast
  then have p: "ind_currentPrice (analyzeIndicators ohlcv) = Some price"
    by (simp add: analyzeIndicators_def Let_def price_def last_map)
  obtain t1 t2 t3 where t: "target_pcts signalType = Inr (t1, t2, t3)"
    using assms(1) p by (auto simp: generateSignal_def Let_def split: sum.splits)
  have r: "generateSignal ohlcv signalType riskTolerance = Inr r" by (rule assms(1))
  show "signal r = decide (buyScore st) (sellScore st)
           (threshold_of riskTolerance (current_regime ohlcv price)
              (ind_volatility20 (analyzeIndicators ohlcv)))"
    using r p t unfolding generateSignal_def Let_def st_def by auto
  show "confidence r = toFixed (confidence_of (signal r) st) 1"
    using r p t unfolding generateSignal_def Let_def st_def
    by (auto simp: confidence_of_def push_reason_def)
  show "riskReward r = riskReward_of (signal r) price (takeProfit2 r) (stopLoss r)"
    using r p t unfolding generateSignal_def Let_def st_def by auto
  show "indicators r = display_indicators (analyzeIndicators ohlcv)"
    using r p t unfolding generateSignal_def Let_def st_def by auto
qed

lemma generateSignal_targets:
  assumes "generateSignal ohlcv signalType riskTolerance = Inr r"
    and "target_pcts signalType = Inr (tp1Pct, tp2Pct, slPct)"
  defines "price \<equiv> close (last ohlcv)"
  defines "dir \<equiv> (if signal r = SELL then - 1 else 1 :: real)"
  shows "takeProfit2 r = toFixed (rd (price * rd (1 + rd (dir * tp2Pct)))) 2"
    and "stopLoss r =
           js_toFixed
             (d_mul (Fin price)
                (d_sub (Fin 1)
                   (d_mul (Fin dir)
                      (dynamicSlPct_of slPct
                         (atrPct_of (ind_atr14 (analyzeIndicators ohlcv)) price))))) 2"
proof -
  have ne: "ohlcv \<noteq> []" using assms(1) generateSignal_Inr_iff by blast
  then have p: "ind_currentPrice (analyzeIndicators ohlcv) = Some price"
    by (simp add: analyzeIndicators_def Let_def price_def last_map)
  show "takeProfit2 r = toFixed (rd (price * rd (1 + rd (dir * tp2Pct)))) 2"
    using assms(1,2) p unfolding generateSignal_def Let_def dir_def by auto
  show "stopLoss r =
           js_toFixed
             (d_mul (Fin price)
                (d_sub (Fin 1)
                   (d_mul (Fin dir)
                      (dynamicSlPct_of slPct
                         (atrPct_of (ind_atr14 (analyzeIndicators ohlcv)) price))))) 2"
    using assms(1,2) p unfolding generateSignal_def Let_def dir_def by auto
qed

subsection \<open>Non-negative scores\<close>

lemma score_init_nonneg: "nonneg_scores score_init"
  by (simp add: nonneg_scores_def score_init_def)

lemma regime_rule_nonneg: "nonneg_scores st \<Longrightarrow> nonneg_scores (regime_rule rg st)"
  by (simp add: nonneg_scores_def regime_rule_def push_reason_def)

lemma rsi_rule_nonneg: "nonneg_scores st \<Longrightarrow> nonneg_scores (rsi_rule rg rsiVal st)"
  by (auto simp: nonneg_scores_def rsi_rule_def addBuy_def addSell_def push_reason_def
      split: option.splits)

lemma macd_rule_nonneg: "nonneg_scores st \<Longrightarrow> nonneg_scores (macd_rule m pm st)"
  by (auto simp: nonneg_scores_def macd_rule_def addBuy_def addSell_def push_reason_def Let_def
      split: option.splits)

lemma bollinger_touch_nonneg:
  "nonneg_scores st \<Longrightarrow> nonneg_scores (bollinger_touch rg price bb st)"
  by (auto simp: nonneg_scores_def bollinger_touch_def addBuy_def addSell_def split: option.splits)

lemma bollinger_compress_nonneg:
  "nonneg_scores st \<Longrightarrow> nonneg_scores (bollinger_compress bb st)"
  by (auto simp: nonneg_scores_def bollinger_compress_def scale_scores_def push_reason_def Let_def
      split: option.splits)

lemma ema_rule_nonneg: "nonneg_scores st \<Longrightarrow> nonneg_scores (ema_rule price e20 e50 st)"
  by (auto simp: nonneg_scores_def ema_rule_def addBuy_def addSell_def push_reason_def
      split: option.splits)

lemma sma200_rule_nonneg: "nonneg_scores st \<Longrightarrow> nonneg_scores (sma200_rule price s st)"
  by (auto simp: nonneg_scores_def sma200_rule_def addBuy_def addSell_def split: option.splits)

lemma momentum_rule_nonneg: "nonneg_scores st \<Longrightarrow> nonneg_scores (momentum_rule m3 m10 st)"
  by (auto simp: nonneg_scores_def momentum_rule_def addBuy_def addSell_def push_reason_def
      split: option.splits)

lemma volume_rule_nonneg: "nonneg_scores st \<Longrightarrow> nonneg_scores (volume_rule vr st)"
  by (auto simp: nonneg_scores_def volume_rule_def scale_scores_def push_reason_def Let_def
      split: option.splits)

text \<open>The penalty takes \<open>0.35 * min\<close> from each score, which leaves at least 0.65 of it.\<close>

lemma contradiction_rule_nonneg: "nonneg_scores st \<Longrightarrow> nonneg_scores (contradiction_rule st)"
  by (auto simp: nonneg_scores_def contradiction_rule_def push_reason_def Let_def min_def)

lemma score_pass_in_trace: "score_pass ohlcv price \<in> set (score_trace ohlcv price)"
  unfolding score_pass_def by (rule last_in_set) (simp add: score_trace_def Let_def)

lemmas rule_nonneg = score_init_nonneg regime_rule_nonneg rsi_rule_nonneg macd_rule_nonneg
  bollinger_touch_nonneg bollinger_compress_nonneg ema_rule_nonneg sma200_rule_nonneg
  momentum_rule_nonneg volume_rule_nonneg contradiction_rule_nonneg

subsection \<open>Rounding to doubles\<close>

text \<open>When \<open>|x| * 2^k\<close> lies between \<open>2^52\<close> and \<open>2^53\<close>, \<open>rd x\<close> is \<open>x * 2^k\<close>
  rounded to an integer, over \<open>2^k\<close>.\<close>

lemma rd_scaled:
  fixes k :: int
  assumes "2 ^ 52 \<le> \<bar>x\<bar> * 2 powr (real_of_int k)" and "\<bar>x\<bar> * 2 powr (real_of_int k) < 2 ^ 53"
  shows "rd x = real_of_int (round_even (x * 2 powr (real_of_int k))) / 2 powr (real_of_int k)"
proof -
  have x0: "x \<noteq> 0" using assms(1) by auto
  have p52: "(2::real) ^ 52 = 2 powr 52" and p53: "(2::real) ^ 53 = 2 powr 53"
    by (simp_all add: powr_realpow [symmetric])
  have "2 powr (52 - real_of_int k) \<le> \<bar>x\<bar>"
    using assms(1) unfolding p52 by (simp add: powr_diff field_simps)
  moreover have "\<bar>x\<bar> < 2 powr (53 - real_of_int k)"
    using assms(2) unfolding p53 by (simp add: powr_diff field_simps)
  ultimately have "\<lfloor>log 2 \<bar>x\<bar>\<rfloor> = 52 - k"
    using x0 by (subst floor_log_eq_powr_iff) (simp_all add: algebra_simps)
  then have "rd x = 2 powr (- real_of_int k) * real_of_int (round_even (x / 2 powr (- real_of_int k)))"
    using x0 by (simp add: rd_def Let_def)
  then show ?thesis by (simp add: powr_minus field_simps)
qed

lemma rd_up:
  fixes k :: nat
  assumes "2 ^ 52 \<le> \<bar>x\<bar> * 2 ^ k" and "\<bar>x\<bar> * 2 ^ k < 2 ^ 53"
  shows "rd x = real_of_int (round_even (x * 2 ^ k)) / 2 ^ k"
  using rd_scaled [of x "int k"] assms by (simp add: powr_realpow)

lemma rd_down:
  fixes k :: nat
  assumes "2 ^ 52 \<le> \<bar>x\<bar> / 2 ^ k" and "\<bar>x\<bar> / 2 ^ k < 2 ^ 53"
  shows "rd x = real_of_int (round_even (x / 2 ^ k)) * 2 ^ k"
  using rd_scaled [of x "- int k"] assms by (simp add: powr_minus powr_realpow field_simps)

lemma rd_0: "rd 0 = 0" by (simp add: rd_def)

lemma round_even_nonzero: "1 \<le> \<bar>y\<bar> \<Longrightarrow> round_even y \<noteq> 0"
  unfolding round_even_def Let_def by (auto split: if_splits) linarith+

lemma rd_eq_0_iff: "rd x = 0 \<longleftrightarrow> x = 0"
proof
  assume r: "rd x = 0"
  show "x = 0"
  proof (rule ccontr)
    assume x0: "x \<noteq> 0"
    define e where "e = \<lfloor>log 2 \<bar>x\<bar>\<rfloor>"
    define u where "u = 2 powr (real_of_int e - 52)"
    have u0: "0 < u" by (simp add: u_def)
    have "2 powr (real_of_int e) \<le> \<bar>x\<bar>"
      using x0 floor_log_eq_powr_iff [where b = 2 and x = "\<bar>x\<bar>" and k = e] by (simp add: e_def)
    then have "2 powr 52 \<le> \<bar>x\<bar> / u"
      using u0 by (simp add: u_def powr_diff field_simps)
    then have "1 \<le> \<bar>x\<bar> / u" by simp
    then have "1 \<le> \<bar>x / u\<bar>" using u0 by simp
    then have "round_even (x / u) \<noteq> 0" by (rule round_even_nonzero)
    then have "rd x \<noteq> 0" using x0 u0 by (simp add: rd_def Let_def e_def u_def)
    with r show False by simp
  qed
qed (simp add: rd_def)


lemma rd_tenth: "rd (1 / 10) = 3602879701896397 / 36028797018963968"
  by (subst rd_up [where k = 56]) (simp_all add: round_even_def)

lemma rd_fifth: "rd (1 / 5) = 3602879701896397 / 18014398509481984"
  by (subst rd_up [where k = 55]) (simp_all add: round_even_def)

lemma rd_three_tenths: "rd (3 / 10) = 5404319552844595 / 18014398509481984"
  by (subst rd_up [where k = 54]) (simp_all add: round_even_def)

lemma rd_tenth_plus_fifth: "rd (10808639105689191 / 36028797018963968) = 1351079888211149 / 4503599627370496"
  by (subst rd_up [where k = 54]) (simp_all add: round_even_def)

lemma rd_three_tenths_up: "rd (7500000000000001 / 25000000000000000) = 1351079888211149 / 4503599627370496"
  by (subst rd_up [where k = 54]) (simp_all add: round_even_def)

text \<open>In doubles \<open>0.1 + 0.2\<close> is \<open>0.30000000000000004\<close> and not \<open>0.3\<close>.\<close>

lemma d_add_tenths:
  "d_add (Fin (rd 0.1)) (Fin (rd 0.2)) = Fin (rd 0.30000000000000004)"
  "d_add (Fin (rd 0.1)) (Fin (rd 0.2)) \<noteq> Fin (rd 0.3)"
  by (simp_all add: d_add_def rd_tenth rd_fifth rd_three_tenths rd_tenth_plus_fifth rd_three_tenths_up)

text \<open>The doubles that the evaluations below meet, each computed from the definition of
  \<open>rd\<close>.\<close>

lemma rd_val_1: "rd (2 / 25) = 5764607523034235 / 72057594037927936"
  by (subst rd_up [where k = 56]) (simp_all add: round_even_def)

lemma rd_val_2: "rd (3 / 200) = 1080863910568919 / 72057594037927936"
  by (subst rd_up [where k = 59]) (simp_all add: round_even_def)

lemma rd_val_3: "rd (3 / 350) = 4941092162600773 / 576460752303423488"
  by (subst rd_up [where k = 59]) (simp_all add: round_even_def)

lemma rd_val_4: "rd (11 / 10) = 2476979795053773 / 2251799813685248"
  by (subst rd_up [where k = 52]) (simp_all add: round_even_def)

lemma rd_val_5: "rd (12238985452260666721241066366529 / 1298074214633706907132624082305024) = 5435201378860851 / 576460752303423488"
  by (subst rd_up [where k = 59]) (simp_all add: round_even_def)

lemma rd_val_6: "rd (17 / 20) = 7656119366529843 / 9007199254740992"
  by (subst rd_up [where k = 53]) (simp_all add: round_even_def)

lemma rd_val_7: "rd (8275223118289881010552921749717 / 649037107316853453566312041152512) = 7349874591868649 / 576460752303423488"
  by (subst rd_up [where k = 59]) (simp_all add: round_even_def)

lemma rd_val_8: "rd (19 / 10) = 4278419646001971 / 2251799813685248"
  by (subst rd_up [where k = 52]) (simp_all add: round_even_def)

lemma rd_val_9: "rd (4624389389632580469350405339349 / 162259276829213363391578010288128) = 1026820715040473 / 36028797018963968"
  by (subst rd_up [where k = 58]) (simp_all add: round_even_def)

lemma rd_val_10: "rd (5764607523034235 / 72057594037927936) = 5764607523034235 / 72057594037927936"
  by (subst rd_up [where k = 56]) (simp_all add: round_even_def)

lemma rd_val_11: "rd (77822201560962171 / 72057594037927936) = 607985949695017 / 562949953421312"
  by (subst rd_up [where k = 52]) (simp_all add: round_even_def)

lemma rd_val_12: "rd (15199648742375425 / 140737488355328) = 108"
  by (subst rd_up [where k = 46]) (simp_all add: round_even_def)

lemma rd_val_13: "rd (108) = 108"
  by (subst rd_up [where k = 46]) (simp_all add: round_even_def)

lemma rd_val_14: "rd (1080863910568919 / 72057594037927936) = 1080863910568919 / 72057594037927936"
  by (subst rd_up [where k = 59]) (simp_all add: round_even_def)

lemma rd_val_15: "rd (70976730127359017 / 72057594037927936) = 8872091265919877 / 9007199254740992"
  by (subst rd_up [where k = 53]) (simp_all add: round_even_def)

lemma rd_val_16: "rd (221802281647996925 / 2251799813685248) = 197 / 2"
  by (subst rd_up [where k = 46]) (simp_all add: round_even_def)

lemma rd_val_17: "rd (197 / 2) = 197 / 2"
  by (subst rd_up [where k = 46]) (simp_all add: round_even_def)

lemma rd_val_18: "rd (8) = 8"
  by (subst rd_up [where k = 49]) (simp_all add: round_even_def)

lemma rd_val_19: "rd (3 / 2) = 3 / 2"
  by (subst rd_up [where k = 52]) (simp_all add: round_even_def)

lemma rd_val_20: "rd (16 / 3) = 6004799503160661 / 1125899906842624"
  by (subst rd_up [where k = 50]) (simp_all add: round_even_def)

lemma rd_val_21: "rd (533 / 100) = 3000523251735593 / 562949953421312"
  by (subst rd_up [where k = 50]) (simp_all add: round_even_def)

lemma rd_val_22: "rd (42) = 42"
  by (subst rd_up [where k = 47]) (simp_all add: round_even_def)

lemma rd_val_23: "rd (95) = 95"
  by (subst rd_up [where k = 46]) (simp_all add: round_even_def)

lemma rd_val_24: "rd (97 / 10000) = 698958662167901 / 72057594037927936"
  by (subst rd_up [where k = 59]) (simp_all add: round_even_def)

lemma rd_val_25: "rd (49 / 5000) = 2824657686286775 / 288230376151711744"
  by (subst rd_up [where k = 59]) (simp_all add: round_even_def)

lemma rd_val_26: "rd (99 / 10000) = 5706961447803893 / 576460752303423488"
  by (subst rd_up [where k = 59]) (simp_all add: round_even_def)

lemma rd_val_27: "rd (1 / 100) = 5764607523034235 / 576460752303423488"
  by (subst rd_up [where k = 59]) (simp_all add: round_even_def)

lemma rd_val_28: "rd (103 / 10000) = 2968772874362631 / 288230376151711744"
  by (subst rd_up [where k = 59]) (simp_all add: round_even_def)

lemma rd_val_29: "rd (53 / 5000) = 6110483974416289 / 576460752303423488"
  by (subst rd_up [where k = 59]) (simp_all add: round_even_def)

lemma rd_val_30: "rd (345876451382054 / 40352252661239645) = 4941092162600771 / 576460752303423488"
  by (subst rd_up [where k = 59]) (simp_all add: round_even_def)

lemma rd_val_31: "rd (12238985452260661767281476258983 / 1298074214633706907132624082305024) = 5435201378860849 / 576460752303423488"
  by (subst rd_up [where k = 59]) (simp_all add: round_even_def)

lemma rd_val_32: "rd (3504800379511008952800699906995 / 324518553658426726783156020576256) = 3112888062438487 / 288230376151711744"
  by (subst rd_up [where k = 59]) (simp_all add: round_even_def)

lemma rd_val_33: "rd (51144124056568052513923437989095 / 5192296858534827628530496329220096) = 5678138410188721 / 576460752303423488"
  by (subst rd_up [where k = 59]) (simp_all add: round_even_def)

lemma rd_val_34: "rd (343512061577684605 / 562949953421312) = 2683687981075661 / 4398046511104"
  by (subst rd_up [where k = 43]) (simp_all add: round_even_def)

lemma rd_val_35: "rd (3051 / 5) = 2683687981075661 / 4398046511104"
  by (subst rd_up [where k = 43]) (simp_all add: round_even_def)

lemma rd_val_36: "rd (5012731565244730505 / 9007199254740992) = 4895245669184307 / 8796093022208"
  by (subst rd_up [where k = 43]) (simp_all add: round_even_def)

lemma rd_val_37: "rd (13913 / 25) = 1223800422179799 / 2199023255552"
  by (subst rd_up [where k = 43]) (simp_all add: round_even_def)

lemma rd_val_38: "rd (198791702301901 / 4398046511104) = 198791702301901 / 4398046511104"
  by (subst rd_up [where k = 47]) (simp_all add: round_even_def)

lemma rd_val_39: "rd (18647717207081 / 2199023255552) = 18647717207081 / 2199023255552"
  by (subst rd_up [where k = 49]) (simp_all add: round_even_def)

lemma rd_val_40: "rd (198791702301901 / 37295434414162) = 3000629468707933 / 562949953421312"
  by (subst rd_up [where k = 50]) (simp_all add: round_even_def)

lemma rd_val_41: "rd (61406580919196717 / 562949953421312) = 3837911307449795 / 35184372088832"
  by (subst rd_up [where k = 46]) (simp_all add: round_even_def)

lemma rd_val_42: "rd (2727 / 25) = 7675822614899589 / 70368744177664"
  by (subst rd_up [where k = 46]) (simp_all add: round_even_def)

lemma rd_val_43: "rd (896081217857907577 / 9007199254740992) = 7000634514514903 / 70368744177664"
  by (subst rd_up [where k = 46]) (simp_all add: round_even_def)

lemma rd_val_44: "rd (2487 / 25) = 7000282670794015 / 70368744177664"
  by (subst rd_up [where k = 46]) (simp_all add: round_even_def)

lemma rd_val_45: "rd (568579452955525 / 70368744177664) = 568579452955525 / 70368744177664"
  by (subst rd_up [where k = 49]) (simp_all add: round_even_def)

lemma rd_val_46: "rd (106960491150049 / 70368744177664) = 106960491150049 / 70368744177664"
  by (subst rd_up [where k = 52]) (simp_all add: round_even_def)

lemma rd_val_47: "rd (568579452955525 / 106960491150049) = 1496261718304017 / 281474976710656"
  by (subst rd_up [where k = 50]) (simp_all add: round_even_def)

lemma rd_val_48: "rd (133 / 25) = 748723438050345 / 140737488355328"
  by (subst rd_up [where k = 50]) (simp_all add: round_even_def)

lemma rd_val_49: "rd (536 / 25) = 6034823500676465 / 281474976710656"
  by (subst rd_up [where k = 48]) (simp_all add: round_even_def)

lemma rd_val_50: "rd (579 / 25) = 6518960460618793 / 281474976710656"
  by (subst rd_up [where k = 48]) (simp_all add: round_even_def)

lemma rd_val_51: "rd (528 / 25) = 5944751508129055 / 281474976710656"
  by (subst rd_up [where k = 48]) (simp_all add: round_even_def)

lemma rd_val_52: "rd (60517119992791 / 35184372088832) = 60517119992791 / 35184372088832"
  by (subst rd_up [where k = 52]) (simp_all add: round_even_def)

lemma rd_val_53: "rd (45035996273705 / 140737488355328) = 45035996273705 / 140737488355328"
  by (subst rd_up [where k = 54]) (simp_all add: round_even_def)

lemma rd_val_54: "rd (242068479971164 / 45035996273705) = 6051711999279095 / 1125899906842624"
  by (subst rd_up [where k = 50]) (simp_all add: round_even_def)

lemma rd_val_55: "rd (537 / 100) = 6046082499744891 / 1125899906842624"
  by (subst rd_up [where k = 50]) (simp_all add: round_even_def)

lemmas rd_vals =
  rd_val_1 rd_val_2 rd_val_3 rd_val_4 rd_val_5 rd_val_6 rd_val_7 rd_val_8 rd_val_9 rd_val_10
  rd_val_11 rd_val_12 rd_val_13 rd_val_14 rd_val_15 rd_val_16 rd_val_17 rd_val_18 rd_val_19
  rd_val_20 rd_val_21 rd_val_22 rd_val_23 rd_val_24 rd_val_25 rd_val_26 rd_val_27 rd_val_28
  rd_val_29 rd_val_30 rd_val_31 rd_val_32 rd_val_33 rd_val_34 rd_val_35 rd_val_36 rd_val_37
  rd_val_38 rd_val_39 rd_val_40 rd_val_41 rd_val_42 rd_val_43 rd_val_44 rd_val_45 rd_val_46
  rd_val_47 rd_val_48 rd_val_49 rd_val_50 rd_val_51 rd_val_52 rd_val_53 rd_val_54 rd_val_55

subsection \<open>The sample sequences evaluated\<close>

lemma sqrt_gt_iff: "0 \<le> c \<Longrightarrow> (c < sqrt v) = (c\<^sup>2 < v)"
  by (metis abs_of_nonneg real_sqrt_abs real_sqrt_less_iff)

lemma dip_closes_1: "map close (dip_candles 1) = dip_closes"
  by (simp add: dip_candles_def dip_closes_def flat_candle_def)

lemma dip_last_1: "close (last (dip_candles 1)) = 100"
  by (simp add: dip_candles_def dip_closes_def flat_candle_def)

lemma dip_indicators_1:
  "analyzeIndicators (dip_candles 1) =
     \<lparr>ind_currentPrice = Some 100, ind_rsi = Some 25, ind_macd = macd_null,
      ind_bollingerBands = \<lparr>bb_upper = None, bb_middle = None, bb_lower = None\<rparr>,
      ind_ema20 = None, ind_ema50 = None, ind_sma200 = None,
      ind_atr14 = Some (6 / 7), ind_momentum3 = Some (3 / 97),
      ind_momentum10 = Some (3 / 97),
      ind_volatility20 =
        Some (sqrt (2430613460684643357493 / 12932672436829541004840000)),
      ind_latestVolume = 100, ind_avgVolume = 38 / 5,
      ind_volumeRatio = Some (250 / 19)\<rparr>"
  apply (simp add: analyzeIndicators_def dip_closes_1 Let_def)
  apply (simp add: rsi_def rsi_window_def macd_def ema_def sma_def bollingerBands_def momentum_def dip_closes_def)
  apply (simp add: atr_def dip_candles_def dip_closes_def flat_candle_def avg_def reduce_sum_def slice_last_def)
  apply (simp add: stdDev_def returns_of_def avg_def reduce_sum_def power2_eq_square)
  done

lemma dip_regime_1: "current_regime (dip_candles 1) 100 = Range"
  by (simp add: current_regime_def dip_indicators_1 trendBias_of_def regime_of_def js_ge_def)

lemma dip_score_1:
  "score_pass (dip_candles 1) 100 =
     \<lparr>buyScore = 7 / 2, sellScore = 0, buyEvidence = 2, sellEvidence = 0,
      reasons = [RegimeRanging, RsiOversoldRange 25, MomentumUp, VolumeSpike (1316 / 100)]\<rparr>"
  apply (simp add: score_pass_def score_trace_def dip_indicators_1 dip_regime_1 dip_closes_1 Let_def)
  apply (simp add: prevMacd_of_def dip_closes_def score_init_def regime_rule_def rsi_rule_def macd_rule_def
      macd_null_def bollinger_touch_def bollinger_compress_def ema_rule_def sma200_rule_def momentum_rule_def
      volume_rule_def contradiction_rule_def push_reason_def addBuy_def addSell_def toFixed_num_def)
  done

lemma dip_threshold_1:
  "threshold_of ''aggressive'' Range
     (Some (sqrt (2430613460684643357493 / 12932672436829541004840000))) = Some (14 / 5)"
proof -
  have "\<not> 0.025 < sqrt (2430613460684643357493 / 12932672436829541004840000 :: real)"
    by (subst sqrt_gt_iff) (simp_all add: power2_eq_square)
  then show ?thesis
    by (simp add: threshold_of_def js_get_def thresholds_def object_prototype_keys_def)
qed

lemma swing_pcts: "target_pcts ''swing'' = Inr (rd 0.03, rd 0.08, rd 0.015)"
  by (simp add: target_pcts_def js_get_def targets_def)

lemma dip_result_1:
  "generateSignal (dip_candles 1) ''swing'' ''aggressive''
     = Inr (projr (generateSignal (dip_candles 1) ''swing'' ''aggressive''))"
  by (rule generateSignal_projr) (simp_all add: dip_candles_def js_get_def targets_def)

lemma dip_signal_1: "signal (projr (generateSignal (dip_candles 1) ''swing'' ''aggressive'')) = BUY"
  by (simp add: generateSignal_fields(2) [OF dip_result_1] dip_last_1 dip_score_1 dip_regime_1
      dip_indicators_1 dip_threshold_1 decide_def meets_def)

lemma dip_atr_1: "ind_atr14 (analyzeIndicators (dip_candles 1)) = Some (6 / 7)"
  by (subst dip_indicators_1) simp

lemma dip_stopLoss_1:
  "stopLoss (projr (generateSignal (dip_candles 1) ''swing'' ''aggressive'')) = Fin 98.5"
  by (simp add: generateSignal_targets(2) [OF dip_result_1 swing_pcts] dip_signal_1 dip_last_1
      dip_atr_1 atrPct_of_def dynamicSlPct_of_def clamp_js_def js_max_def js_min_def d_mul_def
      d_sub_def d_div_def js_sub_def toFixed_def toFixed_num_def rd_vals)

lemma dip_takeProfit2_1:
  "takeProfit2 (projr (generateSignal (dip_candles 1) ''swing'' ''aggressive'')) = 108"
  by (simp add: generateSignal_targets(1) [OF dip_result_1 swing_pcts] dip_signal_1 dip_last_1
      toFixed_def toFixed_num_def rd_vals)

lemma flat_indicators:
  "analyzeIndicators [flat_candle 100 1] =
     \<lparr>ind_currentPrice = Some 100, ind_rsi = None, ind_macd = macd_null,
      ind_bollingerBands = \<lparr>bb_upper = None, bb_middle = None, bb_lower = None\<rparr>,
      ind_ema20 = None, ind_ema50 = None, ind_sma200 = None,
      ind_atr14 = None, ind_momentum3 = None, ind_momentum10 = None,
      ind_volatility20 = None, ind_latestVolume = 1, ind_avgVolume = 1,
      ind_volumeRatio = Some 1\<rparr>"
  by (simp add: analyzeIndicators_def Let_def flat_candle_def rsi_def macd_def ema_def sma_def
      bollingerBands_def momentum_def atr_def avg_def reduce_sum_def slice_last_def stdDev_def
      returns_of_def)

lemma flat_regime: "current_regime [flat_candle 100 1] 100 = Range"
  by (simp add: current_regime_def flat_indicators trendBias_of_def regime_of_def js_ge_def)

lemma flat_score:
  "score_pass [flat_candle 100 1] 100 =
     \<lparr>buyScore = 0, sellScore = 0, buyEvidence = 0, sellEvidence = 0,
      reasons = [RegimeRanging]\<rparr>"
  apply (simp add: score_pass_def score_trace_def flat_indicators flat_regime Let_def)
  apply (simp add: prevMacd_of_def score_init_def regime_rule_def rsi_rule_def
      macd_rule_def macd_null_def bollinger_touch_def bollinger_compress_def ema_rule_def
      sma200_rule_def momentum_rule_def volume_rule_def contradiction_rule_def push_reason_def)
  done

lemma flat_result:
  "generateSignal [flat_candle 100 1] ''swing'' ''moderate''
     = Inr (projr (generateSignal [flat_candle 100 1] ''swing'' ''moderate''))"
  by (rule generateSignal_projr) (simp_all add: js_get_def targets_def)

lemma flat_close: "close (flat_candle p v) = p"
  by (simp add: flat_candle_def)

lemma flat_signal: "signal (projr (generateSignal [flat_candle 100 1] ''swing'' ''moderate'')) = HOLD"
  by (simp add: generateSignal_fields(2) [OF flat_result] flat_close flat_score decide_def)

lemma fall_closes_map: "map close fall_candles = fall_closes"
  by (simp add: fall_candles_def fall_closes_def flat_candle_def)

lemma fall_indicators:
  "analyzeIndicators fall_candles =
     \<lparr>ind_currentPrice = Some 101, ind_rsi = Some 0, ind_macd = macd_null,
      ind_bollingerBands = \<lparr>bb_upper = None, bb_middle = None, bb_lower = None\<rparr>,
      ind_ema20 = None, ind_ema50 = None, ind_sma200 = None,
      ind_atr14 = Some 1, ind_momentum3 = Some (- 3 / 104), ind_momentum10 = Some (- 10 / 111),
      ind_volatility20 = ind_volatility20 (analyzeIndicators fall_candles),
      ind_latestVolume = 1, ind_avgVolume = 1, ind_volumeRatio = Some 1\<rparr>"
  apply (simp add: analyzeIndicators_def fall_closes_map Let_def)
  apply (simp add: rsi_def rsi_window_def macd_def ema_def sma_def bollingerBands_def momentum_def
      fall_closes_def)
  apply (simp add: atr_def fall_candles_def fall_closes_def flat_candle_def avg_def reduce_sum_def
      slice_last_def)
  done

lemma fall_regime: "current_regime fall_candles 101 = Range"
  by (subst current_regime_def, subst fall_indicators)
     (simp add: trendBias_of_def regime_of_def js_ge_def)

lemma fall_score:
  "score_pass fall_candles 101 =
     \<lparr>buyScore = 283 / 200, sellScore = 143 / 200, buyEvidence = 1, sellEvidence = 1,
      reasons = [RegimeRanging, RsiOversoldRange 0, MomentumDown, ContradictionPenalty]\<rparr>"
  apply (subst score_pass_def, subst score_trace_def, subst fall_indicators)
  apply (simp add: fall_regime fall_closes_map Let_def)
  apply (simp add: prevMacd_of_def fall_closes_def score_init_def regime_rule_def rsi_rule_def
      macd_rule_def macd_null_def bollinger_touch_def bollinger_compress_def ema_rule_def
      sma200_rule_def momentum_rule_def volume_rule_def contradiction_rule_def push_reason_def
      addBuy_def addSell_def toFixed_num_def)
  done

subsection \<open>The claims on the scoring pass and the decision\<close>

text \<open>
  Claim C6. \<open>buyScore\<close> and \<open>sellScore\<close> are non-negative after every step of the
  scoring pass, and so after the contradiction adjustment, the last step, which takes
  \<open>0.35 * min(buyScore, sellScore)\<close> from each when both are positive.
\<close>

theorem scores_nonneg:
  "(\<forall>st\<in>set (score_trace ohlcv price). 0 \<le> buyScore st \<and> 0 \<le> sellScore st)
   \<and> 0 \<le> buyScore (score_pass ohlcv price) \<and> 0 \<le> sellScore (score_pass ohlcv price)"
proof -
  have "\<forall>st\<in>set (score_trace ohlcv price). nonneg_scores st"
    unfolding score_trace_def Let_def by (simp add: rule_nonneg)
  moreover note score_pass_in_trace [of ohlcv price]
  ultimately show ?thesis by (auto simp: nonneg_scores_def)
qed

theorem scores_nonneg_witness:
  "score_pass fall_candles 101 \<in> set (score_trace fall_candles 101)
   \<and> buyScore (score_pass fall_candles 101) = 283 / 200
   \<and> sellScore (score_pass fall_candles 101) = 143 / 200
   \<and> 0 \<le> buyScore (score_pass fall_candles 101)
   \<and> 0 \<le> sellScore (score_pass fall_candles 101)"
  using scores_nonneg [of fall_candles 101] score_pass_in_trace [of fall_candles 101]
  by (simp add: fall_score)

text \<open>
  Claim C1. Whatever the candles and the two option strings, when \<open>generateSignal\<close>
  returns and the edge \<open>|buyScore - sellScore|\<close> of the final scores is below 0.9 the
  signal is HOLD, however large the scores are; and it returns BUY (SELL) only when the
  buy (sell) score meets the threshold, is strictly the larger one, and the edge is at
  least 0.9.
\<close>

theorem decision_needs_edge:
  assumes "generateSignal ohlcv signalType riskTolerance = Inr r"
  shows "let price = close (last ohlcv);
             st = score_pass ohlcv price;
             buy = buyScore st; sell = sellScore st;
             edge = \<bar>buy - sell\<bar>;
             threshold = threshold_of riskTolerance (current_regime ohlcv price)
                           (ind_volatility20 (analyzeIndicators ohlcv))
         in (edge < 0.9 \<longrightarrow> signal r = HOLD)
            \<and> (signal r = BUY \<longrightarrow> meets buy threshold \<and> buy > sell \<and> edge \<ge> 0.9)
            \<and> (signal r = SELL \<longrightarrow> meets sell threshold \<and> sell > buy \<and> edge \<ge> 0.9)"
  unfolding Let_def generateSignal_fields(2) [OF assms] decide_def
  by (auto split: if_splits)


theorem decision_needs_edge_witness:
  "signal (projr (generateSignal (dip_candles 1) ''swing'' ''aggressive'')) = BUY
   \<and> buyScore (score_pass (dip_candles 1) 100) = 7 / 2
   \<and> sellScore (score_pass (dip_candles 1) 100) = 0
   \<and> meets (7 / 2)
        (threshold_of ''aggressive'' (current_regime (dip_candles 1) 100)
           (ind_volatility20 (analyzeIndicators (dip_candles 1))))
   \<and> signal (projr (generateSignal [flat_candle 100 1] ''swing'' ''moderate'')) = HOLD"
  using decision_needs_edge [OF dip_result_1] decision_needs_edge [OF flat_result]
  by (simp add: Let_def dip_last_1 dip_score_1 dip_signal_1 flat_close flat_score)



subsection \<open>The same fall and rise at a price of one cent\<close>

lemma cent_closes:
  "map close cent_candles = [6110483974416289 / 576460752303423488, 2968772874362631 / 288230376151711744, 5764607523034235 / 576460752303423488, 698958662167901 / 72057594037927936, 698958662167901 / 72057594037927936, 698958662167901 / 72057594037927936, 698958662167901 / 72057594037927936, 698958662167901 / 72057594037927936, 698958662167901 / 72057594037927936, 698958662167901 / 72057594037927936, 698958662167901 / 72057594037927936, 698958662167901 / 72057594037927936, 2824657686286775 / 288230376151711744, 5706961447803893 / 576460752303423488, 5764607523034235 / 576460752303423488]"
  by (simp add: cent_candles_def dip_closes_def flat_candle_def rd_vals)

lemma cent_last: "close (last cent_candles) = rd (1 / 100)"
  by (simp add: cent_candles_def dip_closes_def flat_candle_def)

lemma cent_indicators:
  "analyzeIndicators cent_candles =
     \<lparr>ind_currentPrice = Some (rd (1 / 100)), ind_rsi = Some 25, ind_macd = macd_null,
      ind_bollingerBands = \<lparr>bb_upper = None, bb_middle = None, bb_lower = None\<rparr>,
      ind_ema20 = None, ind_ema50 = None, ind_sma200 = None,
      ind_atr14 = Some (172938225691027 / 2017612633061982208), ind_momentum3 = Some (172938225691027 / 5591669297343208),
      ind_momentum10 = Some (172938225691027 / 5591669297343208),
      ind_volatility20 = ind_volatility20 (analyzeIndicators cent_candles),
      ind_latestVolume = 100, ind_avgVolume = 38 / 5,
      ind_volumeRatio = Some (250 / 19)\<rparr>"
  apply (simp add: analyzeIndicators_def cent_closes Let_def)
  apply (simp add: rsi_def rsi_window_def macd_def ema_def sma_def bollingerBands_def momentum_def rd_vals)
  apply (simp add: atr_def cent_candles_def dip_closes_def flat_candle_def avg_def reduce_sum_def
      slice_last_def rd_vals)
  done

lemma cent_regime: "current_regime cent_candles (rd (1 / 100)) = Range"
  by (subst current_regime_def, subst cent_indicators)
     (simp add: trendBias_of_def regime_of_def js_ge_def)

lemma cent_score:
  "score_pass cent_candles (rd (1 / 100)) =
     \<lparr>buyScore = 7 / 2, sellScore = 0, buyEvidence = 2, sellEvidence = 0,
      reasons = [RegimeRanging, RsiOversoldRange 25, MomentumUp, VolumeSpike (1316 / 100)]\<rparr>"
  apply (subst score_pass_def, subst score_trace_def, subst cent_indicators)
  apply (simp add: cent_regime cent_closes Let_def)
  apply (simp add: prevMacd_of_def score_init_def regime_rule_def rsi_rule_def macd_rule_def
      macd_null_def bollinger_touch_def bollinger_compress_def ema_rule_def sma200_rule_def momentum_rule_def
      volume_rule_def contradiction_rule_def push_reason_def addBuy_def addSell_def toFixed_num_def rd_vals)
  done

lemma aggressive_range_threshold:
  "\<exists>t. threshold_of ''aggressive'' Range v = Some t \<and> t \<le> 3"
  by (simp add: threshold_of_def js_get_def thresholds_def object_prototype_keys_def Let_def)

lemma cent_result:
  "generateSignal cent_candles ''swing'' ''aggressive''
     = Inr (projr (generateSignal cent_candles ''swing'' ''aggressive''))"
  by (rule generateSignal_projr) (simp_all add: cent_candles_def js_get_def targets_def)

lemma cent_signal:
  "signal (projr (generateSignal cent_candles ''swing'' ''aggressive'')) = BUY"
proof -
  obtain t where t: "threshold_of ''aggressive'' Range (ind_volatility20 (analyzeIndicators cent_candles)) = Some t"
    "t \<le> 3"
    using aggressive_range_threshold by blast
  show ?thesis
    using t by (simp add: generateSignal_fields(2) [OF cent_result] cent_last cent_score cent_regime
      decide_def meets_def)
qed

lemma cent_atr: "ind_atr14 (analyzeIndicators cent_candles) = Some (172938225691027 / 2017612633061982208)"
  by (subst cent_indicators) simp

lemma cent_stopLoss:
  "stopLoss (projr (generateSignal cent_candles ''swing'' ''aggressive'')) = Fin (rd (1 / 100))"
  by (simp add: generateSignal_targets(2) [OF cent_result swing_pcts] cent_signal cent_last cent_atr
      atrPct_of_def dynamicSlPct_of_def clamp_js_def js_max_def js_min_def d_mul_def d_sub_def d_div_def
      js_sub_def toFixed_def toFixed_num_def rd_vals)

lemma cent_takeProfit2:
  "takeProfit2 (projr (generateSignal cent_candles ''swing'' ''aggressive'')) = rd (1 / 100)"
  by (simp add: generateSignal_targets(1) [OF cent_result swing_pcts] cent_signal cent_last
      toFixed_def toFixed_num_def rd_vals)

lemma cent_riskReward:
  "riskReward (projr (generateSignal cent_candles ''swing'' ''aggressive'')) = Fin 0"
  by (simp add: generateSignal_fields(4) [OF cent_result] cent_signal cent_last cent_stopLoss
      cent_takeProfit2 riskReward_of_def d_sub_def d_div_def js_sub_def js_or_zero_def inf_of_sign_def
      toFixed_def toFixed_num_def rd_0)

subsection \<open>Risk/reward\<close>

text \<open>
  The quotient is one of doubles. At a price of 21.44 with take profit 23.16 and stop loss
  21.12 it is 5.374999999999992 and prints as 5.37, where the quotient of the decimals is
  5.375; and the swing stop loss of 1.5 percent under 565 and under 101 prints as 556.52
  and 99.48, where the products of the decimals are 556.525 and 99.485.
\<close>

lemma riskReward_of_doubles:
  "riskReward_of BUY (rd 21.44) (rd 23.16) (Fin (rd 21.12)) = Fin (rd 5.37)"
  by (simp add: riskReward_of_def d_div_def d_sub_def js_sub_def js_or_zero_def toFixed_def
      toFixed_num_def rd_vals)

lemma stopLoss_of_doubles:
  "js_toFixed (d_mul (Fin 565) (d_sub (Fin 1) (d_mul (Fin 1) (dynamicSlPct_of (rd 0.015) None)))) 2
     = Fin (rd 556.52)"
  "js_toFixed (d_mul (Fin 101) (d_sub (Fin 1) (d_mul (Fin 1) (dynamicSlPct_of (rd 0.015) None)))) 2
     = Fin (rd 99.48)"
  by (simp_all add: dynamicSlPct_of_def clamp_js_def js_max_def js_min_def d_mul_def d_sub_def
      js_sub_def toFixed_def toFixed_num_def rd_vals)

text \<open>
  Claim C7, as the code has it. \<open>riskReward\<close> is 0 for HOLD. For BUY and SELL, when the
  rounded stop loss \<open>sl\<close> differs from the price, it is \<open>|tp2 - price| / |price - sl|\<close>
  computed on doubles, the two differences and the quotient each rounded to the nearest
  double, printed with two decimals. It is 0 when \<open>sl\<close> and \<open>tp2\<close> both equal the
  price (the source replaces the NaN of 0/0 by 0), and when \<open>sl\<close> is not a finite
  number. A BUY at price 100 with \<open>tp2 = 108\<close> and stop loss 98.5 has
  \<open>riskReward = 5.33\<close>.
\<close>

theorem riskReward_value:
  assumes "generateSignal ohlcv signalType riskTolerance = Inr r"
  shows "let price = close (last ohlcv); tp2 = takeProfit2 r
         in (signal r = HOLD \<longrightarrow> riskReward r = Fin 0)
            \<and> (signal r \<noteq> HOLD \<longrightarrow>
                 (case stopLoss r of
                    Fin sl \<Rightarrow>
                      (sl \<noteq> price \<longrightarrow>
                         riskReward r
                           = Fin (toFixed (rd (\<bar>rd (tp2 - price)\<bar> / \<bar>rd (price - sl)\<bar>)) 2))
                      \<and> (sl = price \<and> tp2 = price \<longrightarrow> riskReward r = Fin 0)
                  | _ \<Rightarrow> riskReward r = Fin 0))
            \<and> (signal r = BUY \<and> price = 100 \<and> tp2 = 108 \<and> stopLoss r = Fin 98.5
                 \<longrightarrow> riskReward r = Fin (rd 5.33))"
proof -
  define price where "price = close (last ohlcv)"
  define tp2 where "tp2 = takeProfit2 r"
  have rr: "riskReward r = riskReward_of (signal r) price tp2 (stopLoss r)"
    unfolding price_def tp2_def by (rule generateSignal_fields(4) [OF assms])
  have zero: "toFixed 0 2 = 0" by (simp add: toFixed_def toFixed_num_def rd_0)
  have hold: "signal r = HOLD \<longrightarrow> riskReward r = Fin 0"
    unfolding rr by (simp add: riskReward_of_def)
  have fin: "riskReward r = Fin (toFixed (rd (\<bar>rd (tp2 - price)\<bar> / \<bar>rd (price - sl)\<bar>)) 2)"
    if "signal r \<noteq> HOLD" "stopLoss r = Fin sl" "sl \<noteq> price" for sl
  proof -
    have "rd (price - sl) \<noteq> 0" using that(3) by (simp add: rd_eq_0_iff)
    then show ?thesis
      unfolding rr using that(1,2)
      by (simp add: riskReward_of_def d_div_def d_sub_def js_sub_def js_or_zero_def zero)
  qed
  have both: "riskReward r = Fin 0"
    if "signal r \<noteq> HOLD" "stopLoss r = Fin price" "tp2 = price"
    unfolding rr using that
    by (simp add: riskReward_of_def d_div_def d_sub_def js_sub_def js_or_zero_def inf_of_sign_def
        zero rd_0)
  have other: "riskReward r = Fin 0"
    if "signal r \<noteq> HOLD" "stopLoss r = PosInf \<or> stopLoss r = NegInf \<or> stopLoss r = NaN"
    unfolding rr using that
    by (auto simp: riskReward_of_def d_div_def d_sub_def js_sub_def js_or_zero_def zero rd_0)
  have general: "signal r \<noteq> HOLD \<longrightarrow>
       (case stopLoss r of
          Fin sl \<Rightarrow>
            (sl \<noteq> price \<longrightarrow>
               riskReward r = Fin (toFixed (rd (\<bar>rd (tp2 - price)\<bar> / \<bar>rd (price - sl)\<bar>)) 2))
            \<and> (sl = price \<and> tp2 = price \<longrightarrow> riskReward r = Fin 0)
        | _ \<Rightarrow> riskReward r = Fin 0)"
    using fin both other by (cases "stopLoss r") auto
  have "riskReward_of BUY 100 108 (Fin 98.5) = Fin (rd 5.33)"
    by (simp add: riskReward_of_def d_div_def d_sub_def js_sub_def js_or_zero_def toFixed_def
        toFixed_num_def rd_vals)
  then have example:
    "signal r = BUY \<and> price = 100 \<and> tp2 = 108 \<and> stopLoss r = Fin 98.5
     \<longrightarrow> riskReward r = Fin (rd 5.33)"
    using rr by auto
  from hold general example show ?thesis
    unfolding Let_def price_def [symmetric] tp2_def [symmetric] by blast
qed

theorem riskReward_value_witness:
  "signal (projr (generateSignal (dip_candles 1) ''swing'' ''aggressive'')) = BUY
   \<and> close (last (dip_candles 1)) = 100
   \<and> takeProfit2 (projr (generateSignal (dip_candles 1) ''swing'' ''aggressive'')) = 108
   \<and> stopLoss (projr (generateSignal (dip_candles 1) ''swing'' ''aggressive'')) = Fin 98.5
   \<and> riskReward (projr (generateSignal (dip_candles 1) ''swing'' ''aggressive'')) = Fin (rd 5.33)
   \<and> rd 5.33 = 3000523251735593 / 562949953421312
   \<and> riskReward (projr (generateSignal [flat_candle 100 1] ''swing'' ''moderate'')) = Fin 0"
  using riskReward_value [OF dip_result_1] riskReward_value [OF flat_result]
  by (simp add: Let_def dip_signal_1 dip_last_1 dip_takeProfit2_1 dip_stopLoss_1 flat_signal
      toFixed_def toFixed_num_def rd_vals)

text \<open>
  Claim C7 as stated fails at a BUY whose price is one cent: the take profit and the stop
  loss both round to the price, the quotient of the claim is 0/0, which is NaN, and the
  source returns 0.
\<close>

theorem riskReward_counterexample:
  "generateSignal cent_candles ''swing'' ''aggressive''
     = Inr (projr (generateSignal cent_candles ''swing'' ''aggressive''))
   \<and> signal (projr (generateSignal cent_candles ''swing'' ''aggressive'')) = BUY
   \<and> close (last cent_candles) = rd 0.01
   \<and> takeProfit2 (projr (generateSignal cent_candles ''swing'' ''aggressive'')) = rd 0.01
   \<and> stopLoss (projr (generateSignal cent_candles ''swing'' ''aggressive'')) = Fin (rd 0.01)
   \<and> js_toFixed (d_div (js_abs (d_sub (Fin (rd 0.01)) (Fin (rd 0.01))))
                        (js_abs (d_sub (Fin (rd 0.01)) (Fin (rd 0.01))))) 2 = NaN
   \<and> riskReward (projr (generateSignal cent_candles ''swing'' ''aggressive'')) = Fin 0"
  using cent_result
  by (simp add: cent_signal cent_last cent_takeProfit2 cent_stopLoss cent_riskReward
      d_div_def d_sub_def js_sub_def inf_of_sign_def rd_0)

section \<open>A rising series\<close>

subsection \<open>Indicators of sorted closes\<close>

lemma ema_loop_snoc: "ema_loop k e (ps @ [p]) = p * k + ema_loop k e ps * (1 - k)"
  by (induction ps arbitrary: e) simp_all

lemma ema_snoc:
  assumes "p \<le> length zs"
  shows "ema (zs @ [z]) p
           = map_option (\<lambda>e. z * (2 / (real p + 1)) + e * (1 - 2 / (real p + 1))) (ema zs p)"
  using assms by (simp add: ema_def Let_def ema_loop_snoc)

lemma ema_seed: "length ys = p \<Longrightarrow> ema ys p = Some (sum_list ys / real p)"
  by (simp add: ema_def reduce_sum_sum_list)

lemma sorted_le_last:
  fixes ys :: "real list"
  assumes "sorted ys" "x \<in> set ys"
  shows "x \<le> last ys"
proof -
  obtain i where i: "i < length ys" "ys ! i = x"
    using assms(2) by (auto simp: in_set_conv_nth)
  then have "ys ! i \<le> ys ! (length ys - 1)"
    using assms(1) by (intro sorted_nth_mono) auto
  moreover have "ys \<noteq> []" using assms(2) by auto
  ultimately show ?thesis using i by (simp add: last_conv_nth)
qed

lemma sorted_sum_le_last:
  fixes ys :: "real list"
  assumes "sorted ys"
  shows "sum_list ys \<le> real (length ys) * last ys"
proof -
  have "sum_list (map (\<lambda>x. x) ys) \<le> sum_list (map (\<lambda>_. last ys) ys)"
    by (rule sum_list_mono) (simp add: sorted_le_last [OF assms])
  then show ?thesis by (simp add: sum_list_triv)
qed

text \<open>On a non-decreasing sequence the exponential average lies between the mean of the
  sequence and its last element.\<close>

lemma ema_between:
  fixes ys :: "real list"
  assumes "sorted ys" "0 < p" "p \<le> length ys"
  shows "\<exists>e. ema ys p = Some e \<and> sum_list ys / real (length ys) \<le> e \<and> e \<le> last ys"
  using assms
proof (induction ys rule: rev_induct)
  case Nil
  then show ?case by simp
next
  case (snoc z zs)
  have sz: "sorted zs" and zmax: "\<forall>x\<in>set zs. x \<le> z"
    using snoc.prems(1) by (simp_all add: sorted_append)
  show ?case
  proof (cases "p \<le> length zs")
    case False
    then have len: "length (zs @ [z]) = p" using snoc.prems(3) by simp
    have "sum_list (zs @ [z]) \<le> real (length (zs @ [z])) * last (zs @ [z])"
      by (rule sorted_sum_le_last [OF snoc.prems(1)])
    then have "sum_list (zs @ [z]) \<le> real p * z"
      unfolding len by simp
    then have "sum_list (zs @ [z]) / real p \<le> z"
      using snoc.prems(2) by (simp add: field_simps)
    then have "ema (zs @ [z]) p = Some (sum_list (zs @ [z]) / real p)
        \<and> sum_list (zs @ [z]) / real p \<le> sum_list (zs @ [z]) / real p
        \<and> sum_list (zs @ [z]) / real p \<le> last (zs @ [z])"
      using ema_seed [OF len] by simp
    then show ?thesis by (subst len) blast
  next
    case True
    then obtain e where e: "ema zs p = Some e" "sum_list zs / real (length zs) \<le> e" "e \<le> last zs"
      using snoc.IH [OF sz snoc.prems(2)] by blast
    have ne: "zs \<noteq> []" using True snoc.prems(2) by auto
    define n where "n = real (length zs)"
    define k where "k = 2 / (real p + 1)"
    define m where "m = sum_list zs / n"
    have n: "0 < n" "real p \<le> n" using ne True by (simp_all add: n_def)
    have k: "0 < k" "k \<le> 1" "1 / (n + 1) \<le> k"
      using snoc.prems(2) n by (simp_all add: k_def field_simps)
    have ez: "e \<le> z" using e(3) zmax ne by (meson last_in_set order_trans)
    have me: "m \<le> e" using e(2) by (simp add: m_def n_def)
    have "(n * m + z) / (n + 1) = m + (z - m) * (1 / (n + 1))"
      using n by (simp add: field_simps)
    also have "\<dots> \<le> m + (z - m) * k"
      using k(3) me ez by (intro add_left_mono mult_left_mono) simp_all
    also have "\<dots> = z * k + m * (1 - k)" by (simp add: algebra_simps)
    also have "\<dots> \<le> z * k + e * (1 - k)"
      using me k(2) by (intro add_left_mono mult_right_mono) simp_all
    finally have lower: "(n * m + z) / (n + 1) \<le> z * k + e * (1 - k)" .
    have "z * k + e * (1 - k) \<le> z * k + z * (1 - k)"
      using ez k(2) by (intro add_left_mono mult_right_mono) simp_all
    then have upper: "z * k + e * (1 - k) \<le> z" by (simp add: algebra_simps)
    have "sum_list (zs @ [z]) / real (length (zs @ [z])) = (n * m + z) / (n + 1)"
      using n by (simp add: m_def n_def add.commute)
    moreover have "ema (zs @ [z]) p = Some (z * k + e * (1 - k))"
      using ema_snoc [OF True, of z] e(1) by (simp add: k_def)
    ultimately show ?thesis using lower upper by simp
  qed
qed

text \<open>On a non-decreasing sequence the average of the shorter period is not below the
  average of the longer one.\<close>

lemma ema_short_ge_long:
  fixes ys :: "real list"
  assumes "sorted ys" "0 < p" "p \<le> q" "q \<le> length ys"
  shows "\<exists>a b. ema ys p = Some a \<and> ema ys q = Some b \<and> b \<le> a"
  using assms
proof (induction ys rule: rev_induct)
  case Nil
  then show ?case by simp
next
  case (snoc z zs)
  have sz: "sorted zs" and zmax: "\<forall>x\<in>set zs. x \<le> z"
    using snoc.prems(1) by (simp_all add: sorted_append)
  have pl: "p \<le> length (zs @ [z])" using snoc.prems by simp
  obtain a where a: "ema (zs @ [z]) p = Some a"
      "sum_list (zs @ [z]) / real (length (zs @ [z])) \<le> a"
    using ema_between [OF snoc.prems(1,2) pl] by blast
  show ?case
  proof (cases "q \<le> length zs")
    case False
    then have len: "length (zs @ [z]) = q" using snoc.prems(4) by simp
    have "sum_list (zs @ [z]) / real q \<le> a" using a(2) unfolding len .
    then show ?thesis using a(1) ema_seed [OF len] by simp
  next
    case True
    then obtain a' b' where ab: "ema zs p = Some a'" "ema zs q = Some b'" "b' \<le> a'"
      using snoc.IH [OF sz snoc.prems(2,3)] by blast
    have pz: "p \<le> length zs" using True snoc.prems(3) by simp
    have ne: "zs \<noteq> []" using pz snoc.prems(2) by auto
    obtain e where e: "ema zs p = Some e" "e \<le> last zs"
      using ema_between [OF sz snoc.prems(2) pz] by blast
    then have az: "a' \<le> z" using ab(1) zmax ne by (metis last_in_set option.inject order_trans)
    define kp where "kp = 2 / (real p + 1)"
    define kq where "kq = 2 / (real q + 1)"
    have kk: "kq \<le> kp" "kq \<le> 1" "0 < kq"
      using snoc.prems(2,3) by (simp_all add: kp_def kq_def field_simps)
    have "z * kq + b' * (1 - kq) \<le> z * kq + a' * (1 - kq)"
      using ab(3) kk(2) by (intro add_left_mono mult_right_mono) simp_all
    also have "\<dots> = a' + (z - a') * kq" by (simp add: algebra_simps)
    also have "\<dots> \<le> a' + (z - a') * kp"
      using kk(1) az by (intro add_left_mono mult_left_mono) simp_all
    also have "\<dots> = z * kp + a' * (1 - kp)" by (simp add: algebra_simps)
    finally have "z * kq + b' * (1 - kq) \<le> z * kp + a' * (1 - kp)" .
    moreover have "ema (zs @ [z]) p = Some (z * kp + a' * (1 - kp))"
      using ema_snoc [OF pz, of z] ab(1) by (simp add: kp_def)
    moreover have "ema (zs @ [z]) q = Some (z * kq + b' * (1 - kq))"
      using ema_snoc [OF True, of z] ab(2) by (simp add: kq_def)
    ultimately show ?thesis by simp
  qed
qed

lemma deltas_nonneg: "sorted xs \<Longrightarrow> \<forall>d\<in>set (deltas xs). 0 \<le> d"
  by (induction xs rule: deltas.induct) auto

lemma rsi_sorted:
  assumes "sorted prices" "period + 1 \<le> length prices"
  shows "rsi prices period = Some 100"
proof -
  have "sorted (drop (length prices - (period + 1)) prices)"
    using assms(1) by (rule sorted_wrt_drop)
  then have "\<forall>d\<in>set (rsi_window prices period). 0 \<le> d"
    unfolding rsi_window_def by (rule deltas_nonneg)
  then have "snd (rsi_loop (0, 0) (rsi_window prices period)) = 0"
    by (rule rsi_loop_no_loss)
  then show ?thesis
    using assms(2) by (simp add: rsi_def split_beta)
qed

lemma regime_of_nonneg:
  assumes "0 < price" "e50 \<le> e20"
  shows "regime_of (trendBias_of (Some e20) (Some e50) price)
           = (if 0.012 * price \<le> e20 - e50 then Uptrend else Range)"
proof -
  define tb where "tb = (e20 - e50) / price"
  have tb0: "0 \<le> tb" using assms by (simp add: tb_def)
  have bias: "trendBias_of (Some e20) (Some e50) price = Fin tb"
    using assms(1) by (simp add: trendBias_of_def tb_def)
  have strong: "(0.012 \<le> tb) = (0.012 * price \<le> e20 - e50)"
    using assms(1) by (simp add: tb_def pos_le_divide_eq)
  have "regime_of (Fin tb) = (if 0.012 \<le> tb then Uptrend else Range)"
  proof (cases "0.012 \<le> tb")
    case True
    then have "0 < tb" by simp
    with True tb0 show ?thesis
      by (simp add: regime_of_def js_ge_def js_gt_def Let_def not_less)
  next
    case False
    with tb0 show ?thesis
      by (simp add: regime_of_def js_ge_def js_gt_def Let_def not_less)
  qed
  then show ?thesis unfolding bias strong .
qed

subsection \<open>The rising sample evaluated\<close>

lemma macd_history_Cons:
  "macd_history k12 k26 e12 e26 (p # ps) =
     (p * k12 + e12 * (1 - k12) - (p * k26 + e26 * (1 - k26)))
     # macd_history k12 k26 (p * k12 + e12 * (1 - k12)) (p * k26 + e26 * (1 - k26)) ps"
  by (simp add: Let_def)

lemma macd_eval:
  assumes "ema prices 12 = Some e12" and "ema prices 26 = Some e26" and "35 \<le> length prices"
    and "ema_loop (2 / 10)
           (reduce_sum
              (take 9 (macd_history (2 / 13) (2 / 27)
                 (ema_loop (2 / 13) (reduce_sum (take 12 prices) / 12) (take 14 (drop 12 prices)))
                 (reduce_sum (take 26 prices) / 26) (drop 26 prices))) / 9)
           (drop 9 (macd_history (2 / 13) (2 / 27)
              (ema_loop (2 / 13) (reduce_sum (take 12 prices) / 12) (take 14 (drop 12 prices)))
              (reduce_sum (take 26 prices) / 26) (drop 26 prices))) = s"
  shows "macd prices =
           \<lparr>macd_line = Some (e12 - e26), macd_signal = Some s,
            macd_histogram = Some (e12 - e26 - s)\<rparr>"
  using assms by (simp add: macd_def Let_def)

lemma rise_closes_map: "map close rise_candles = rise_closes"
  by (simp add: rise_candles_def rise_closes_def flat_candle_def comp_def)

lemma rise_butlast: "butlast rise_closes = rise_head"
  by (simp add: rise_closes_def)

lemma rise_length: "length rise_closes = 300" "length rise_head = 299"
  by (simp_all add: rise_closes_def rise_head_def)

lemma rise_last: "close (last rise_candles) = 10593"
  by (simp add: rise_candles_def flat_candle_def)

lemma rise_ema12: "ema rise_closes 12 = Some (182702711918864946722683 / 17300831838762675866)"
  by (simp add: ema_def rise_closes_def rise_head_def reduce_sum_def)

lemma rise_ema26: "ema rise_closes 26 = Some (45155850828179750207354842267 / 4307387926151115532621494)"
  by (simp add: ema_def rise_closes_def rise_head_def reduce_sum_def)

lemma rise_signal_line:
  "ema_loop (2 / 10)
     (reduce_sum
        (take 9 (macd_history (2 / 13) (2 / 27)
           (ema_loop (2 / 13) (reduce_sum (take 12 rise_closes) / 12) (take 14 (drop 12 rise_closes)))
           (reduce_sum (take 26 rise_closes) / 26) (drop 26 rise_closes))) / 9)
     (drop 9 (macd_history (2 / 13) (2 / 27)
        (ema_loop (2 / 13) (reduce_sum (take 12 rise_closes) / 12) (take 14 (drop 12 rise_closes)))
        (reduce_sum (take 26 rise_closes) / 26) (drop 26 rise_closes)))
   = 1102615310335603371776921955903203920538711598502500452257 / 14213827929431372303537276665503334271748314666748046875"
  by (simp add: rise_closes_def rise_head_def reduce_sum_def macd_history_Cons del: macd_history.simps(2))

lemma rise_macd:
  "macd rise_closes =
     \<lparr>macd_line = Some (1434418419948553287822028994367804642386380045 / 18630348543664288305692379271008530296665951),
      macd_signal = Some (1102615310335603371776921955903203920538711598502500452257 / 14213827929431372303537276665503334271748314666748046875),
      macd_histogram = Some (- 8240905467627535731062432612337341569610612021787561632 / 14213827929431372303537276665503334271748314666748046875)\<rparr>"
  using macd_eval [OF rise_ema12 rise_ema26 _ rise_signal_line] by (simp add: rise_length)

lemma rise_prev_ema12: "ema rise_head 12 = Some (14046152668595931863621 / 1330833218366359682)"
  by (simp add: ema_def rise_closes_def rise_head_def reduce_sum_def)

lemma rise_prev_ema26: "ema rise_head 26 = Some (1671039484085060328776980399 / 159532886153745019726722)"
  by (simp add: ema_def rise_closes_def rise_head_def reduce_sum_def)

lemma rise_prev_signal_line:
  "ema_loop (2 / 10)
     (reduce_sum
        (take 9 (macd_history (2 / 13) (2 / 27)
           (ema_loop (2 / 13) (reduce_sum (take 12 rise_head) / 12)
              (take 14 (drop 12 rise_head)))
           (reduce_sum (take 26 rise_head) / 26) (drop 26 rise_head))) / 9)
     (drop 9 (macd_history (2 / 13) (2 / 27)
        (ema_loop (2 / 13) (reduce_sum (take 12 rise_head) / 12)
           (take 14 (drop 12 rise_head)))
        (reduce_sum (take 26 rise_head) / 26) (drop 26 rise_head)))
   = 629444750257840601543981517980791029020577921087149483 / 8099047253237249175804716048719848587890777587890625"
  by (simp add: rise_closes_def rise_head_def reduce_sum_def macd_history_Cons del: macd_history.simps(2))

lemma rise_prevMacd:
  "prevMacd_of rise_closes =
     \<lparr>macd_line = Some (4237104988763620027848338950711219923876811 / 53077916078815636198553787096890399705601),
      macd_signal = Some (629444750257840601543981517980791029020577921087149483 / 8099047253237249175804716048719848587890777587890625),
      macd_histogram = Some (17086162334264505244400279918259862684257741754647392 / 8099047253237249175804716048719848587890777587890625)\<rparr>"
  using macd_eval [OF rise_prev_ema12 rise_prev_ema26 _ rise_prev_signal_line]
  by (simp add: prevMacd_of_def rise_length rise_butlast)

lemma rise_rsi: "rsi rise_closes 14 = Some 100"
  by (simp add: rsi_def rsi_window_def rise_closes_def rise_head_def)

lemma rise_ema20: "ema rise_closes 20 = Some (12891805972146222003588763 / 1226201734493130281418)"
  by (simp add: ema_def rise_closes_def rise_head_def reduce_sum_def)

lemma rise_ema50: "ema rise_closes 50 = Some (2222814495252735538922775896178187 / 213659884520328434397420681702)"
  by (simp add: ema_def rise_closes_def rise_head_def reduce_sum_def)

lemma rise_sma200: "sma rise_closes 200 = Some (2044163 / 200)"
  by (simp add: sma_def slice_last_def rise_closes_def rise_head_def reduce_sum_def)

lemma rise_bb:
  "bollingerBands rise_closes 20 2 =
     \<lparr>bb_upper = Some (210053 / 20 + 2 * sqrt (5677651 / 400)), bb_middle = Some (210053 / 20),
      bb_lower = Some (210053 / 20 - 2 * sqrt (5677651 / 400))\<rparr>"
  by (simp add: bollingerBands_def sma_def slice_last_def rise_closes_def rise_head_def reduce_sum_def
      power2_eq_square Let_def)

lemma rise_momentum: "momentum rise_closes 3 = Some (1 / 3530)" "momentum rise_closes 10 = Some (10 / 10583)"
  by (simp_all add: momentum_def rise_closes_def rise_head_def)

lemma rise_atr: "atr rise_candles 14 = Some (23 / 2)"
  by (simp add: atr_def rise_candles_def rise_head_def flat_candle_def avg_def reduce_sum_def)

lemma rise_volume:
  "rise_candles \<noteq> []" "volume (last rise_candles) = 100"
  "avg (map volume (slice_last 20 rise_candles)) = Some (119 / 20)"
  by (simp_all add: rise_candles_def rise_head_def flat_candle_def avg_def reduce_sum_def
      slice_last_def)

lemma rise_nonempty: "rise_closes \<noteq> []" "last rise_closes = 10593"
  by (simp_all add: rise_closes_def)

lemma rise_indicators:
  "analyzeIndicators rise_candles =
     \<lparr>ind_currentPrice = Some 10593, ind_rsi = Some 100,
      ind_macd =
        \<lparr>macd_line = Some (1434418419948553287822028994367804642386380045 / 18630348543664288305692379271008530296665951),
         macd_signal = Some (1102615310335603371776921955903203920538711598502500452257 / 14213827929431372303537276665503334271748314666748046875),
         macd_histogram = Some (- 8240905467627535731062432612337341569610612021787561632 / 14213827929431372303537276665503334271748314666748046875)\<rparr>,
      ind_bollingerBands =
        \<lparr>bb_upper = Some (210053 / 20 + 2 * sqrt (5677651 / 400)), bb_middle = Some (210053 / 20),
         bb_lower = Some (210053 / 20 - 2 * sqrt (5677651 / 400))\<rparr>,
      ind_ema20 = Some (12891805972146222003588763 / 1226201734493130281418),
      ind_ema50 = Some (2222814495252735538922775896178187 / 213659884520328434397420681702),
      ind_sma200 = Some (2044163 / 200), ind_atr14 = Some (23 / 2),
      ind_momentum3 = Some (1 / 3530), ind_momentum10 = Some (10 / 10583),
      ind_volatility20 = ind_volatility20 (analyzeIndicators rise_candles),
      ind_latestVolume = 100, ind_avgVolume = 119 / 20,
      ind_volumeRatio = Some (2000 / 119)\<rparr>"
  by (simp add: analyzeIndicators_def Let_def rise_closes_map rise_rsi rise_macd rise_bb rise_ema20
      rise_ema50 rise_sma200 rise_atr rise_momentum rise_volume rise_length rise_nonempty)

lemma rise_regime: "current_regime rise_candles 10593 = Range"
  by (subst current_regime_def, subst rise_indicators)
     (simp add: trendBias_of_def regime_of_def js_ge_def js_gt_def)

lemma rise_sd: "106 \<le> sqrt (5677651 / 400 :: real)"
  by (rule real_le_rsqrt) (simp add: power2_eq_square)

lemma bb_touch_inside:
  assumes "106 \<le> S"
  shows "bollinger_touch Range 10593
           \<lparr>bb_upper = Some (210053 / 20 + 2 * S), bb_middle = Some (210053 / 20),
            bb_lower = Some (210053 / 20 - 2 * S)\<rparr> st = st"
  using assms by (simp add: bollinger_touch_def)

lemma bb_not_compressed:
  assumes "106 \<le> S"
  shows "bollinger_compress
           \<lparr>bb_upper = Some (210053 / 20 + 2 * S), bb_middle = Some (210053 / 20),
            bb_lower = Some (210053 / 20 - 2 * S)\<rparr> st = st"
  using assms by (simp add: bollinger_compress_def)

lemma rise_score:
  "score_pass rise_candles 10593 =
     \<lparr>buyScore = 429 / 200, sellScore = 629 / 200, buyEvidence = 3, sellEvidence = 2,
      reasons = [RegimeRanging, RsiOverboughtRange 100, MacdFreshBearish, EmaBullish,
                 AboveSma200, MomentumUp, VolumeSpike (1681 / 100), ContradictionPenalty]\<rparr>"
  apply (subst score_pass_def, subst score_trace_def, subst rise_indicators)
  apply (simp add: rise_regime rise_closes_map rise_prevMacd Let_def)
  apply (simp add: score_init_def regime_rule_def rsi_rule_def macd_rule_def to_number_def
      bb_touch_inside [OF rise_sd] bb_not_compressed [OF rise_sd] ema_rule_def sma200_rule_def
      momentum_rule_def volume_rule_def contradiction_rule_def push_reason_def addBuy_def
      addSell_def toFixed_num_def)
  done

lemma rise_result:
  "generateSignal rise_candles ''swing'' ''aggressive''
     = Inr (projr (generateSignal rise_candles ''swing'' ''aggressive''))"
  by (rule generateSignal_projr) (simp_all add: rise_candles_def js_get_def targets_def)

lemma rise_signal: "signal (projr (generateSignal rise_candles ''swing'' ''aggressive'')) = SELL"
proof -
  obtain t where t:
    "threshold_of ''aggressive'' Range (ind_volatility20 (analyzeIndicators rise_candles)) = Some t"
    "t \<le> 3"
    using aggressive_range_threshold by blast
  show ?thesis
    using t by (simp add: generateSignal_fields(2) [OF rise_result] rise_last rise_score rise_regime
      decide_def meets_def)
qed

lemma rise_sorted: "sorted_wrt (<) (map close rise_candles)"
  unfolding rise_closes_map
  by (subst successively_conv_sorted_wrt [symmetric])
     (auto simp: rise_closes_def rise_head_def)

lemma rise_positive: "\<forall>c\<in>set rise_candles. 0 < close c"
proof -
  have "\<forall>p\<in>set rise_closes. 0 < p"
    by (simp add: rise_closes_def rise_head_def)
  then show ?thesis unfolding rise_closes_map [symmetric] by simp
qed

subsection \<open>The claim on rising closes\<close>

text \<open>
  Claim C9, as the code has it. On 300 candles whose closes are positive and strictly
  increasing \<open>rsi\<close> is 100 and \<open>ema50\<close> is at most \<open>ema20\<close>; the regime is
  uptrend when \<open>ema20 - ema50\<close> is at least 1.2 percent of the price and range
  otherwise, never downtrend.
\<close>

theorem rising_series:
  assumes "length ohlcv = 300"
    and "sorted_wrt (<) (map close ohlcv)"
    and "\<forall>c\<in>set ohlcv. 0 < close c"
  shows "ind_rsi (analyzeIndicators ohlcv) = Some 100
         \<and> (\<exists>e20 e50.
               ind_ema20 (analyzeIndicators ohlcv) = Some e20
               \<and> ind_ema50 (analyzeIndicators ohlcv) = Some e50
               \<and> e50 \<le> e20
               \<and> current_regime ohlcv (close (last ohlcv))
                   = (if 0.012 * close (last ohlcv) \<le> e20 - e50 then Uptrend else Range))
         \<and> current_regime ohlcv (close (last ohlcv)) \<noteq> Downtrend"
proof -
  let ?closes = "map close ohlcv"
  have sorted: "sorted ?closes"
    using assms(2) by (rule strict_sorted_imp_sorted)
  have len: "length ?closes = 300" using assms(1) by simp
  have rsi: "ind_rsi (analyzeIndicators ohlcv) = Some 100"
    using rsi_sorted [OF sorted, of 14] len by (simp add: analyzeIndicators_def Let_def)
  obtain e20 e50 where e: "ema ?closes 20 = Some e20" "ema ?closes 50 = Some e50" "e50 \<le> e20"
    using ema_short_ge_long [OF sorted, of 20 50] len by auto
  have ne: "ohlcv \<noteq> []" using assms(1) by auto
  then have pos: "0 < close (last ohlcv)" using assms(3) by simp
  have ind: "ind_ema20 (analyzeIndicators ohlcv) = Some e20"
      "ind_ema50 (analyzeIndicators ohlcv) = Some e50"
    using e by (simp_all add: analyzeIndicators_def Let_def)
  have regime: "current_regime ohlcv (close (last ohlcv))
      = (if 0.012 * close (last ohlcv) \<le> e20 - e50 then Uptrend else Range)"
    unfolding current_regime_def Let_def ind by (rule regime_of_nonneg [OF pos e(3)])
  then have "current_regime ohlcv (close (last ohlcv)) \<noteq> Downtrend" by simp
  with rsi ind e(3) regime show ?thesis by blast
qed

theorem rising_series_witness:
  "length rise_candles = 300
   \<and> sorted_wrt (<) (map close rise_candles)
   \<and> ind_rsi (analyzeIndicators rise_candles) = Some 100
   \<and> current_regime rise_candles 10593 \<noteq> Downtrend"
  using rising_series [OF _ rise_sorted rise_positive] rise_sorted rise_length(1)
  by (simp add: rise_closes_map [symmetric] rise_last)

text \<open>
  Claim C9 as stated fails: on the rising sample the short average is less than 1.2
  percent of the price above the long one, so the regime is range, where an RSI of 100
  counts as overbought; the slowdown after the six large steps gives a fresh bearish MACD
  crossover; and with the volume spike on the stronger side the sell score reaches 3.145
  against a buy score of 2.145 and a threshold of at most 3: the signal is SELL.
\<close>

theorem rising_series_counterexample:
  "length rise_candles = 300
   \<and> sorted_wrt (<) (map close rise_candles)
   \<and> 0 < close (hd rise_candles)
   \<and> ind_rsi (analyzeIndicators rise_candles) = Some 100
   \<and> current_regime rise_candles (close (last rise_candles)) = Range
   \<and> sellScore (score_pass rise_candles (close (last rise_candles))) = 3.145
   \<and> buyScore (score_pass rise_candles (close (last rise_candles))) = 2.145
   \<and> generateSignal rise_candles ''swing'' ''aggressive''
       = Inr (projr (generateSignal rise_candles ''swing'' ''aggressive''))
   \<and> signal (projr (generateSignal rise_candles ''swing'' ''aggressive'')) = SELL"
proof -
  have "length rise_candles = 300"
    using rise_length(1) by (simp add: rise_closes_map [symmetric])
  moreover have "0 < close (hd rise_candles)"
    by (simp add: rise_candles_def rise_head_def flat_candle_def)
  moreover have "ind_rsi (analyzeIndicators rise_candles) = Some 100"
    by (subst rise_indicators) simp
  ultimately show ?thesis
    using rise_sorted rise_result
    by (simp add: rise_last rise_regime rise_score rise_signal)
qed

section \<open>Totality of generateSignal\<close>



lemma round_opt_None [simp]: "round_opt x d = None \<longleftrightarrow> x = None"
  by (simp add: round_opt_def split: option.splits)








section \<open>Properties of the synthetic candle generator\<close>

lemma hash_btc_1h: "sint (hash_seed 0 ''BTCUSDT1h'') = - 1115254794"
  by simp

lemma rand_btc_1h: "rand (- 1115254794) = (- 850051742, 1297431906 / 2147483647)"
  by (simp add: rand_def js_rem_def Let_def)

lemma demo_loop_ohlcv:
  "map ohlcv_of (demo_loop n i tr v seed price ts) = map ohlcv_of (demo_loop n i tr v seed price ts')"
proof (induction n arbitrary: seed price ts ts')
  case 0
  then show ?case by simp
next
  case (Suc n)
  have "ohlcv_of (c\<lparr>demo_timestamp := t\<rparr>) = ohlcv_of c" for c t
    by (simp add: ohlcv_of_def)
  then show ?case
    using Suc.IH [of _ _ "ts_add ts i" "ts_add ts' i"]
    by (simp add: Let_def split_beta) (simp add: ohlcv_of_def)
qed

lemma ts_add_funpow:
  "((\<lambda>t. ts_add t i) ^^ k) (ts_add ts i) = ts_add (((\<lambda>t. ts_add t i) ^^ k) ts) i"
  by (induction k) simp_all

lemma demo_loop_timestamps:
  "map demo_timestamp (demo_loop n i tr v seed price ts)
     = map (\<lambda>k. ((\<lambda>t. ts_add t i) ^^ k) ts) [0..<n]"
proof (induction n arbitrary: seed price ts)
  case 0
  then show ?case by simp
next
  case (Suc n)
  have "[0..<Suc n] = 0 # map Suc [0..<n]"
    by (simp add: upt_conv_Cons map_Suc_upt del: upt_Suc)
  then show ?case
    by (simp add: Let_def split_beta Suc.IH ts_add_funpow del: upt_Suc)
qed

lemma length_demo_loop: "length (demo_loop n i tr v seed price ts) = n"
  by (induction n arbitrary: seed price ts) (simp_all add: Let_def split_beta)

lemma ts_add_numbers: "((\<lambda>t. ts_add t (Some i)) ^^ k) (TsNum t) = TsNum (t + int k * i)"
  by (induction k) (simp_all add: algebra_simps)

lemma ts_add_inherited: "((\<lambda>t. ts_add t None) ^^ k) TsNaN = inherited_ts k"
  by (induction k) (simp_all add: inherited_ts_def replicate_append_same)

lemma generateDemoData_timestamps:
  "map demo_timestamp (generateDemoData symbol timeframe limit now)
     = (case intervalMs_of timeframe of
          Some i \<Rightarrow> map (\<lambda>k. TsNum (now - int limit * i + int k * i)) [0..<limit]
        | None \<Rightarrow> map inherited_ts [0..<limit])"
  by (simp add: generateDemoData_def Let_def split_beta demo_loop_timestamps ts_start_def
      ts_add_numbers ts_add_inherited split: option.splits)

lemma btc_1h_interval: "intervalMs_of ''1h'' = Some 3600000"
  by (simp add: intervalMs_of_def js_get_def msMap_def)

lemma constructor_interval: "intervalMs_of ''constructor'' = None"
  by (simp add: intervalMs_of_def js_get_def msMap_def object_prototype_keys_def)

text \<open>
  Claim C2, as the code has it. For every symbol, timeframe and limit, two invocations
  return \<open>limit\<close> candles with the same open, high, low, close and volume, whatever
  the clock says. When \<open>timeframe\<close> is not a property name of \<open>Object.prototype\<close>
  the timestamp of candle \<open>k\<close> is \<open>now - (limit - k) * intervalMs\<close> for the value
  \<open>now\<close> that \<open>Date.now()\<close> returned to the invocation, so the timestamps agree when
  both invocations read the same clock value. For such a property name the first
  timestamp is NaN and the later ones are strings, none of which depends on the clock.
\<close>

theorem demo_data_clock:
  "map ohlcv_of (generateDemoData symbol timeframe limit now1)
     = map ohlcv_of (generateDemoData symbol timeframe limit now2)
   \<and> length (generateDemoData symbol timeframe limit now1) = limit
   \<and> map demo_timestamp (generateDemoData symbol timeframe limit now1)
       = (case intervalMs_of timeframe of
            Some intervalMs \<Rightarrow> map (\<lambda>k. TsNum (now1 - int (limit - k) * intervalMs)) [0..<limit]
          | None \<Rightarrow> map inherited_ts [0..<limit])"
proof -
  have a: "map ohlcv_of (generateDemoData symbol timeframe limit now1)
     = map ohlcv_of (generateDemoData symbol timeframe limit now2)"
    by (simp add: generateDemoData_def Let_def split_beta
        demo_loop_ohlcv [of _ _ _ _ _ _ "ts_start now1 limit (intervalMs_of timeframe)"
          "ts_start now2 limit (intervalMs_of timeframe)"])
  have b: "length (generateDemoData symbol timeframe limit now1) = limit"
    by (simp add: generateDemoData_def Let_def split_beta length_demo_loop)
  have "map (\<lambda>k. TsNum (now1 - int limit * i + int k * i)) [0..<limit]
          = map (\<lambda>k. TsNum (now1 - int (limit - k) * i)) [0..<limit]" for i
    by (rule map_cong) (auto simp: algebra_simps of_nat_diff)
  then have c: "map demo_timestamp (generateDemoData symbol timeframe limit now1)
       = (case intervalMs_of timeframe of
            Some intervalMs \<Rightarrow> map (\<lambda>k. TsNum (now1 - int (limit - k) * intervalMs)) [0..<limit]
          | None \<Rightarrow> map inherited_ts [0..<limit])"
    unfolding generateDemoData_timestamps by (simp split: option.splits)
  from a b c show ?thesis by blast
qed

text \<open>Two candles of BTCUSDT at one hour, and two with the timeframe \<open>constructor\<close>.\<close>

theorem demo_data_clock_witness:
  "map ohlcv_of (generateDemoData ''BTCUSDT'' ''1h'' 2 1700000000000)
     = map ohlcv_of (generateDemoData ''BTCUSDT'' ''1h'' 2 1700000000001)
   \<and> length (generateDemoData ''BTCUSDT'' ''1h'' 2 1700000000000) = 2
   \<and> map demo_timestamp (generateDemoData ''BTCUSDT'' ''1h'' 2 1700000000000)
       = [TsNum 1699992800000, TsNum 1699996400000]
   \<and> map demo_timestamp (generateDemoData ''BTCUSDT'' ''constructor'' 2 1700000000000)
       = [TsNaN, TsStr [NaNText, InheritedText]]
   \<and> map demo_timestamp (generateDemoData ''BTCUSDT'' ''constructor'' 2 1700000000001)
       = [TsNaN, TsStr [NaNText, InheritedText]]"
  using demo_data_clock [of "''BTCUSDT''" "''1h''" 2 1700000000000 1700000000001]
    demo_data_clock [of "''BTCUSDT''" "''constructor''" 2 1700000000000 1700000000001]
    demo_data_clock [of "''BTCUSDT''" "''constructor''" 2 1700000000001 1700000000000]
  by (simp add: btc_1h_interval constructor_interval inherited_ts_def upt_conv_Cons del: upt_Suc)

text \<open>
  Claim C2 as stated fails: two invocations with identical arguments, one millisecond
  apart, differ in the timestamp of every candle.
\<close>

theorem demo_data_counterexample:
  "map demo_timestamp (generateDemoData ''BTCUSDT'' ''1h'' 1 1700000000000) = [TsNum 1699996400000]
   \<and> map demo_timestamp (generateDemoData ''BTCUSDT'' ''1h'' 1 1700000000001) = [TsNum 1699996400001]
   \<and> generateDemoData ''BTCUSDT'' ''1h'' 1 1700000000000
       \<noteq> generateDemoData ''BTCUSDT'' ''1h'' 1 1700000000001"
proof -
  have a: "map demo_timestamp (generateDemoData ''BTCUSDT'' ''1h'' 1 1700000000000) = [TsNum 1699996400000]"
    by (simp add: generateDemoData_timestamps btc_1h_interval)
  have b: "map demo_timestamp (generateDemoData ''BTCUSDT'' ''1h'' 1 1700000000001) = [TsNum 1699996400001]"
    by (simp add: generateDemoData_timestamps btc_1h_interval)
  from a b have "generateDemoData ''BTCUSDT'' ''1h'' 1 1700000000000
       \<noteq> generateDemoData ''BTCUSDT'' ''1h'' 1 1700000000001"
    by auto
  with a b show ?thesis by blast
qed

end
